theory Spec2Isabelle
  imports Complex_Main
begin

section \<open>JavaScript values\<close>

text \<open>
  The two servers exchange JSON. A value that \<^verbatim>\<open>JSON.parse\<close> can return is a
  \<open>json\<close>; a JavaScript expression may also be \<^verbatim>\<open>undefined\<close>, which is \<open>None\<close> of
  \<open>json option\<close>. A string is the list of its code units, a \<open>char\<close> being one of the
  256 code units U+0000 to U+00FF. A number is given by the text that \<^verbatim>\<open>String\<close>
  prints for it, as \<^verbatim>\<open>1e+21\<close> or \<^verbatim>\<open>0.5\<close>: that text tells a number from every other
  but \<^verbatim>\<open>-0\<close> from \<^verbatim>\<open>0\<close>, which are both \<open>JNum ''0''\<close> and which nothing here tells
  apart. An object is the list of its own properties, a key's first entry being the
  property.
\<close>

datatype json =
    JNull
  | JBool bool
  | JNum string
  | JStr string
  | JArr "json list"
  | JObj "(string \<times> json) list"

type_synonym jsval = "json option"

text \<open>Truthiness, as \<^verbatim>\<open>if (v)\<close>, \<^verbatim>\<open>!v\<close>, \<^verbatim>\<open>a && b\<close> and \<^verbatim>\<open>a || b\<close> test it.\<close>

fun truthy :: "jsval \<Rightarrow> bool" where
  "truthy None = False"
| "truthy (Some JNull) = False"
| "truthy (Some (JBool b)) = b"
| "truthy (Some (JNum n)) = (n \<noteq> ''0'')"
| "truthy (Some (JStr s)) = (s \<noteq> [])"
| "truthy (Some (JArr xs)) = True"
| "truthy (Some (JObj kvs)) = True"

text \<open>\<^verbatim>\<open>a || b\<close> where \<^verbatim>\<open>b\<close> is a literal.\<close>

definition or_else :: "jsval \<Rightarrow> json \<Rightarrow> json" where
  "or_else a b = (case a of None \<Rightarrow> b | Some v \<Rightarrow> if truthy (Some v) then v else b)"

text \<open>\<^verbatim>\<open>typeof v === "object"\<close>: objects, arrays and null.\<close>

fun typeof_object :: "jsval \<Rightarrow> bool" where
  "typeof_object (Some JNull) = True"
| "typeof_object (Some (JArr xs)) = True"
| "typeof_object (Some (JObj kvs)) = True"
| "typeof_object v = False"

text \<open>The text of a natural number: its decimal digits.\<close>

definition digit_char :: "nat \<Rightarrow> char" where
  "digit_char d = ''0123456789'' ! d"

fun digits :: "nat \<Rightarrow> string" where
  "digits n = (if n < 10 then [digit_char n] else digits (n div 10) @ [digit_char (n mod 10)])"

declare digits.simps [simp del]

text \<open>\<^verbatim>\<open>Array.prototype.join(",")\<close> on strings already converted.\<close>

fun join_comma :: "string list \<Rightarrow> string" where
  "join_comma [] = []"
| "join_comma [s] = s"
| "join_comma (s # t # ss) = s @ CHR '','' # join_comma (t # ss)"

text \<open>
  \<^verbatim>\<open>String(v)\<close> of a defined value. A number prints as its text. An array joins its
  elements with commas, null elements printing as the empty string; an object prints as
  \<^verbatim>\<open>[object Object]\<close>.
\<close>

fun to_string :: "json \<Rightarrow> string" where
  "to_string JNull = ''null''"
| "to_string (JBool b) = (if b then ''true'' else ''false'')"
| "to_string (JNum n) = n"
| "to_string (JStr s) = s"
| "to_string (JArr xs) = join_comma (map (\<lambda>x. if x = JNull then [] else to_string x) xs)"
| "to_string (JObj kvs) = ''[object Object]''"

text \<open>What a \<^verbatim>\<open>throw\<close> or a rejected promise carries to a \<^verbatim>\<open>catch\<close>.\<close>

datatype js_error =
    FetchError string
  | HttpError string
  | InvalidJson
  | TypeError

text \<open>
  \<^verbatim>\<open>String(v)\<close> and \<^verbatim>\<open>v.toString()\<close> throw a \<^verbatim>\<open>TypeError\<close> on an object that has an
  own property \<^verbatim>\<open>toString\<close>, which in JSON is never a function, and on an array that
  holds such an object. On every other value they give \<open>to_string\<close>;
  \<^verbatim>\<open>String(undefined)\<close> is \<^verbatim>\<open>"undefined"\<close>.
\<close>

fun printable :: "json \<Rightarrow> bool" and printables :: "json list \<Rightarrow> bool" where
  "printable (JObj kvs) = (map_of kvs ''toString'' = None)"
| "printable (JArr xs) = printables xs"
| "printable v = True"
| "printables [] = True"
| "printables (x # xs) = (printable x \<and> printables xs)"

definition js_String :: "jsval \<Rightarrow> js_error + string" where
  "js_String v =
     (case v of
        None \<Rightarrow> Inr ''undefined''
      | Some x \<Rightarrow> if printable x then Inr (to_string x) else Inl TypeError)"

text \<open>
  \<^verbatim>\<open>String.prototype.trim\<close> strips white space and line terminators. Of the code units
  below 256 these are tab, line feed, vertical tab, form feed, carriage return, space
  and the no-break space U+00A0.
\<close>

definition is_space :: "char \<Rightarrow> bool" where
  "is_space c =
     (c \<in> set [CHR 0x09, CHR 0x0A, CHR 0x0B, CHR 0x0C, CHR 0x0D, CHR 0x20, CHR 0xA0])"

definition trim :: "string \<Rightarrow> string" where
  "trim s = rev (dropWhile is_space (rev (dropWhile is_space s)))"

text \<open>
  Reading the property \<open>k\<close> of a defined, non-null value: an object's own property, an
  array's or a string's \<^verbatim>\<open>length\<close> and elements, \<^verbatim>\<open>undefined\<close> otherwise.
\<close>

fun own :: "json \<Rightarrow> string \<Rightarrow> jsval" where
  "own (JObj kvs) k = map_of kvs k"
| "own (JArr xs) k =
     (if k = ''length'' then Some (JNum (digits (length xs)))
      else case find (\<lambda>i. digits i = k) [0..<length xs] of
             Some i \<Rightarrow> Some (xs ! i)
           | None \<Rightarrow> None)"
| "own (JStr s) k =
     (if k = ''length'' then Some (JNum (digits (length s)))
      else case find (\<lambda>i. digits i = k) [0..<length s] of
             Some i \<Rightarrow> Some (JStr [s ! i])
           | None \<Rightarrow> None)"
| "own v k = None"

text \<open>
  \<^verbatim>\<open>v?.k\<close>: \<^verbatim>\<open>undefined\<close> when \<open>v\<close> is \<^verbatim>\<open>undefined\<close> or null. Where the source writes
  \<^verbatim>\<open>v.k\<close> behind a test that \<open>v\<close> is truthy, the two agree.
\<close>

definition oprop :: "jsval \<Rightarrow> string \<Rightarrow> jsval" where
  "oprop v k = (case v of None \<Rightarrow> None | Some JNull \<Rightarrow> None | Some x \<Rightarrow> own x k)"

section \<open>Tool Schema Adapter\<close>

definition default_schema :: json where
  "default_schema =
     JObj [(''type'', JStr ''object''), (''properties'', JObj []),
           (''additionalProperties'', JBool True)]"

text \<open>
  \<^verbatim>\<open>(p && typeof p === "object") ? p : { type: "object", properties: {}, additionalProperties: true }\<close>
\<close>

definition schema_or_default :: "jsval \<Rightarrow> json" where
  "schema_or_default p =
     (case p of
        None \<Rightarrow> default_schema
      | Some v \<Rightarrow> if truthy (Some v) \<and> typeof_object (Some v) then v else default_schema)"

text \<open>The object literal both adapters push.\<close>

definition function_tool :: "string \<Rightarrow> string \<Rightarrow> json \<Rightarrow> json" where
  "function_tool name description parameters =
     JObj [(''type'', JStr ''function''),
           (''function'',
              JObj [(''name'', JStr name), (''description'', JStr description),
                    (''parameters'', parameters)])]"

text \<open>
  The test of the first branch of \<^verbatim>\<open>toOpenAITools\<close>:
  \<^verbatim>\<open>t && t.type === "function" && t.function && t.function.name\<close>.
\<close>

definition openai_ready :: "json \<Rightarrow> bool" where
  "openai_ready t =
     (truthy (Some t) \<and> oprop (Some t) ''type'' = Some (JStr ''function'') \<and>
      truthy (oprop (Some t) ''function'') \<and>
      truthy (oprop (oprop (Some t) ''function'') ''name''))"

text \<open>
  The body of the \<^verbatim>\<open>for (const t of list)\<close> loop, \<open>out\<close> being the array built so far.
  The properties of the object literal are evaluated in order: name, description,
  parameters.
\<close>

fun toOpenAITools_loop :: "json list \<Rightarrow> json list \<Rightarrow> js_error + json list" where
  "toOpenAITools_loop [] out = Inr out"
| "toOpenAITools_loop (t # ts) out =
     (if openai_ready t then
        (case js_String (oprop (oprop (Some t) ''function'') ''name'') of
           Inl e \<Rightarrow> Inl e
         | Inr name \<Rightarrow>
             (case js_String (Some (or_else (oprop (oprop (Some t) ''function'') ''description'')
                                       (JStr []))) of
                Inl e \<Rightarrow> Inl e
              | Inr description \<Rightarrow>
                  toOpenAITools_loop ts
                    (out @ [function_tool name description
                       (schema_or_default (oprop (oprop (Some t) ''function'') ''parameters''))])))
      else
        (case js_String (Some (or_else (oprop (Some t) ''name'') (JStr []))) of
           Inl e \<Rightarrow> Inl e
         | Inr s \<Rightarrow>
             (let name = trim s
              in if name = [] then toOpenAITools_loop ts out
                 else
                   (case js_String (Some (or_else (oprop (Some t) ''description'') (JStr []))) of
                      Inl e \<Rightarrow> Inl e
                    | Inr description \<Rightarrow>
                        toOpenAITools_loop ts
                          (out @ [function_tool name description
                             (schema_or_default (oprop (Some t) ''inputSchema''))])))))"

text \<open>\<^verbatim>\<open>const list = Array.isArray(tools) ? tools : []\<close>\<close>

definition array_or_empty :: "jsval \<Rightarrow> json list" where
  "array_or_empty v = (case v of Some (JArr xs) \<Rightarrow> xs | _ \<Rightarrow> [])"

definition toOpenAITools :: "jsval \<Rightarrow> js_error + json list" where
  "toOpenAITools tools = toOpenAITools_loop (array_or_empty tools) []"

text \<open>
  The registry server's adapter: \<^verbatim>\<open>list.map(...).filter(x => x.function.name)\<close>, the
  function mapped being \<open>mcp_descriptor\<close>.
\<close>

definition mcp_descriptor :: "json \<Rightarrow> js_error + json" where
  "mcp_descriptor t =
     (case js_String (Some (or_else (oprop (Some t) ''name'') (JStr []))) of
        Inl e \<Rightarrow> Inl e
      | Inr name \<Rightarrow>
          (case js_String (Some (or_else (oprop (Some t) ''description'') (JStr []))) of
             Inl e \<Rightarrow> Inl e
           | Inr description \<Rightarrow>
               Inr (function_tool name description
                      (schema_or_default (oprop (Some t) ''inputSchema'')))))"

text \<open>\<^verbatim>\<open>Array.prototype.map\<close> with a function that may throw.\<close>

fun map_throwing :: "('a \<Rightarrow> js_error + 'b) \<Rightarrow> 'a list \<Rightarrow> js_error + 'b list" where
  "map_throwing f [] = Inr []"
| "map_throwing f (x # xs) =
     (case f x of
        Inl e \<Rightarrow> Inl e
      | Inr y \<Rightarrow> (case map_throwing f xs of Inl e \<Rightarrow> Inl e | Inr ys \<Rightarrow> Inr (y # ys)))"

definition mcpToOpenAITools :: "jsval \<Rightarrow> js_error + json list" where
  "mcpToOpenAITools mcpTools =
     (case map_throwing mcp_descriptor (array_or_empty mcpTools) of
        Inl e \<Rightarrow> Inl e
      | Inr ds \<Rightarrow> Inr (filter (\<lambda>x. truthy (oprop (oprop (Some x) ''function'') ''name'')) ds))"

text \<open>
  What one entry of the input contributes, named for the statements below. The entry
  makes the adapter throw when one of the values it converts is not printable; it is
  kept when the first branch takes it or its own \<^verbatim>\<open>name\<close> is not blank, and
  \<open>descriptor\<close> is the object pushed for it.
\<close>

definition native_name :: "json \<Rightarrow> string" where
  "native_name t = trim (to_string (or_else (oprop (Some t) ''name'') (JStr [])))"

definition named :: "json \<Rightarrow> bool" where
  "named t = (openai_ready t \<or> native_name t \<noteq> [])"

definition throws :: "json \<Rightarrow> bool" where
  "throws t =
     (if openai_ready t then
        \<not> (printable (or_else (oprop (oprop (Some t) ''function'') ''name'') (JStr [])) \<and>
           printable (or_else (oprop (oprop (Some t) ''function'') ''description'') (JStr [])))
      else
        \<not> (printable (or_else (oprop (Some t) ''name'') (JStr [])) \<and>
           (native_name t = [] \<or> printable (or_else (oprop (Some t) ''description'') (JStr [])))))"

definition descriptor_name :: "json \<Rightarrow> string" where
  "descriptor_name t =
     (if openai_ready t then to_string (or_else (oprop (oprop (Some t) ''function'') ''name'') (JStr []))
      else native_name t)"

definition descriptor_schema :: "json \<Rightarrow> jsval" where
  "descriptor_schema t =
     (if openai_ready t then oprop (oprop (Some t) ''function'') ''parameters''
      else oprop (Some t) ''inputSchema'')"

definition descriptor_description :: "json \<Rightarrow> jsval" where
  "descriptor_description t =
     (if openai_ready t then oprop (oprop (Some t) ''function'') ''description''
      else oprop (Some t) ''description'')"

definition descriptor :: "json \<Rightarrow> json" where
  "descriptor t =
     function_tool (descriptor_name t)
       (to_string (or_else (descriptor_description t) (JStr [])))
       (schema_or_default (descriptor_schema t))"

text \<open>The same for the registry's adapter.\<close>

definition mcp_name :: "json \<Rightarrow> string" where
  "mcp_name t = to_string (or_else (oprop (Some t) ''name'') (JStr []))"

definition mcp_throws :: "json \<Rightarrow> bool" where
  "mcp_throws t =
     (\<not> (printable (or_else (oprop (Some t) ''name'') (JStr [])) \<and>
         printable (or_else (oprop (Some t) ''description'') (JStr []))))"

definition mcp_tool :: "json \<Rightarrow> json" where
  "mcp_tool t =
     function_tool (mcp_name t)
       (to_string (or_else (oprop (Some t) ''description'') (JStr [])))
       (schema_or_default (oprop (Some t) ''inputSchema''))"

text \<open>The name an emitted descriptor carries: \<^verbatim>\<open>d.function.name\<close>.\<close>

definition tool_name :: "json \<Rightarrow> jsval" where
  "tool_name d = oprop (oprop (Some d) ''function'') ''name''"

definition tool_parameters :: "json \<Rightarrow> jsval" where
  "tool_parameters d = oprop (oprop (Some d) ''function'') ''parameters''"

text \<open>A descriptor has a name when that is a string and not the empty one.\<close>

definition has_name :: "json \<Rightarrow> bool" where
  "has_name d = (case tool_name d of Some (JStr n) \<Rightarrow> n \<noteq> [] | _ \<Rightarrow> False)"

text \<open>A schema that both adapters replace: absent, or no object.\<close>

definition no_schema :: "jsval \<Rightarrow> bool" where
  "no_schema p = (\<not> (truthy p \<and> typeof_object p))"

text \<open>
  No entry that the first branch takes has a name that \<^verbatim>\<open>String\<close> prints as the empty
  string. Every string, number, boolean and object name passes; an array such as
  \<^verbatim>\<open>[]\<close> does not.
\<close>

definition names_print :: "jsval \<Rightarrow> bool" where
  "names_print tools =
     list_all (\<lambda>t. openai_ready t \<longrightarrow> descriptor_name t \<noteq> []) (array_or_empty tools)"

section \<open>The agent's chat route for OpenAI-compatible providers\<close>

text \<open>
  A response as the route reads it: the status, whether the content type names JSON,
  the body text, and \<^verbatim>\<open>JSON.parse\<close> of that text (\<open>None\<close> where it throws).
  \<^verbatim>\<open>await fetch(...)\<close> either rejects with a message or resolves to a response.
\<close>

record http_response =
  status :: nat
  json_type :: bool
  raw :: string
  parsed :: "json option"

datatype fetched = Rejected string | Resolved http_response

definition ok :: "http_response \<Rightarrow> bool" where
  "ok r = (200 \<le> status r \<and> status r \<le> 299)"

text \<open>
  The conversation. A tool message holds \<^verbatim>\<open>tc.id\<close> and the value whose
  \<^verbatim>\<open>JSON.stringify\<close> text is its content.
\<close>

datatype message =
    SystemMsg string
  | UserMsg string
  | AssistantMsg json json
  | ToolMsg jsval json

text \<open>
  The requests of the route: the tool list of the registry, a chat completion with the
  messages and tools sent, and a tool invocation with the body
  \<^verbatim>\<open>{ name, args, tenant }\<close>.
\<close>

datatype request =
    GetTools string string
  | PostChat "message list" "json list"
  | PostCall jsval json string

text \<open>
  The world outside: the answer to the last request of a history, and \<^verbatim>\<open>JSON.parse\<close>
  on the argument text of a tool call.
\<close>

record world =
  net :: "request list \<Rightarrow> fetched"
  parse :: "string \<Rightarrow> json option"

text \<open>The route's answers.\<close>

datatype answer =
    Reply json
  | BadRequest string string
  | AgentFailed js_error

text \<open>
  \<^verbatim>\<open>openaiCompatChat\<close>, after its \<^verbatim>\<open>fetch\<close>: the parsed reply, or the \<^verbatim>\<open>Error\<close> of a
  status that is not 2xx, whose message \<^verbatim>\<open>new Error(...)\<close> converts to a string.
\<close>

definition openaiCompatChat :: "fetched \<Rightarrow> js_error + json" where
  "openaiCompatChat f =
     (case f of
        Rejected e \<Rightarrow> Inl (FetchError e)
      | Resolved r \<Rightarrow>
          (let j = (if json_type r then (case parsed r of Some v \<Rightarrow> v | None \<Rightarrow> JNull) else JNull)
           in if \<not> ok r
              then (case js_String (Some (or_else (oprop (oprop (Some j) ''error'') ''message'')
                                            (JStr (take 400 (raw r))))) of
                      Inl e \<Rightarrow> Inl e
                    | Inr m \<Rightarrow> Inl (HttpError m))
              else Inr j))"

text \<open>The state of one run: both message arrays and the requests sent so far.\<close>

record run =
  messages :: "message list"
  loopMessages :: "message list"
  sent :: "request list"

datatype ending = Replied json run | Failed js_error run

datatype step = Continue run | Stop ending

text \<open>\<^verbatim>\<open>for (const tc of toolCalls)\<close> iterates an array or the characters of a string.\<close>

fun iterable :: "json \<Rightarrow> json list option" where
  "iterable (JArr xs) = Some xs"
| "iterable (JStr s) = Some (map (\<lambda>c. JStr [c]) s)"
| "iterable v = None"

text \<open>
  The request of one tool call \<open>tc\<close>: the name \<^verbatim>\<open>tc?.function?.name\<close>, and the
  arguments parsed from \<^verbatim>\<open>tc?.function?.arguments || "{}"\<close>, or \<^verbatim>\<open>{ raw: argsStr }\<close>
  where \<^verbatim>\<open>JSON.parse\<close>, which first converts its argument to a string, throws.
\<close>

definition call_request :: "world \<Rightarrow> string \<Rightarrow> json \<Rightarrow> request" where
  "call_request w tenantId tc =
     (let name = oprop (oprop (Some tc) ''function'') ''name'';
          argsStr = or_else (oprop (oprop (Some tc) ''function'') ''arguments'') (JStr ''{}'');
          args = (case js_String (Some argsStr) of
                    Inl e \<Rightarrow> JObj [(''raw'', argsStr)]
                  | Inr s \<Rightarrow>
                      (case parse w s of
                         Some v \<Rightarrow> v
                       | None \<Rightarrow> JObj [(''raw'', argsStr)]))
      in PostCall name args tenantId)"

text \<open>
  The body of the loop over the tool calls, for one call: the request, the body of the
  answer as \<^verbatim>\<open>callResp.json()\<close> gives it, and the tool message pushed. \<^verbatim>\<open>tc.id\<close>
  throws when \<open>tc\<close> is null.
\<close>

definition exec_call :: "world \<Rightarrow> string \<Rightarrow> run \<Rightarrow> json \<Rightarrow> step" where
  "exec_call w tenantId st tc =
     (let st1 = st\<lparr>sent := sent st @ [call_request w tenantId tc]\<rparr>
      in case net w (sent st1) of
           Rejected e \<Rightarrow> Stop (Failed (FetchError e) st1)
         | Resolved r \<Rightarrow>
             (case parsed r of
                None \<Rightarrow> Stop (Failed InvalidJson st1)
              | Some callJson \<Rightarrow>
                  if tc = JNull then Stop (Failed TypeError st1)
                  else Continue (st1\<lparr>loopMessages :=
                         loopMessages st1 @ [ToolMsg (own tc ''id'') callJson]\<rparr>)))"

fun exec_calls :: "world \<Rightarrow> string \<Rightarrow> run \<Rightarrow> json list \<Rightarrow> step" where
  "exec_calls w tenantId st [] = Continue st"
| "exec_calls w tenantId st (tc # tcs) =
     (case exec_call w tenantId st tc of
        Continue st' \<Rightarrow> exec_calls w tenantId st' tcs
      | Stop e \<Rightarrow> Stop e)"

text \<open>What the loop reads from a reply \<open>out\<close>.\<close>

definition reply_message :: "json \<Rightarrow> json" where
  "reply_message out = or_else (oprop (oprop (oprop (Some out) ''choices'') ''0'') ''message'') (JObj [])"

definition reply_tool_calls :: "json \<Rightarrow> json" where
  "reply_tool_calls out = or_else (oprop (Some (reply_message out)) ''tool_calls'') (JArr [])"

definition reply_content :: "json \<Rightarrow> json" where
  "reply_content out = or_else (oprop (Some (reply_message out)) ''content'') (JStr [])"

text \<open>One pass of \<^verbatim>\<open>for (let i = 0; i < 6; i++)\<close>.\<close>

definition iteration :: "world \<Rightarrow> string \<Rightarrow> json list \<Rightarrow> run \<Rightarrow> step" where
  "iteration w tenantId tools st =
     (let st1 = st\<lparr>sent := sent st @ [PostChat (messages st) tools]\<rparr>
      in case openaiCompatChat (net w (sent st1)) of
           Inl e \<Rightarrow> Stop (Failed e st1)
         | Inr out \<Rightarrow>
             (let toolCalls = reply_tool_calls out;
                  content = reply_content out
              in if \<not> truthy (own toolCalls ''length'') then Stop (Replied content st1)
                 else
                   (let st2 = st1\<lparr>loopMessages :=
                          loopMessages st1 @ [AssistantMsg content toolCalls]\<rparr>
                    in case iterable toolCalls of
                         None \<Rightarrow> Stop (Failed TypeError st2)
                       | Some tcs \<Rightarrow>
                           (case exec_calls w tenantId st2 tcs of
                              Continue st3 \<Rightarrow> Continue (st3\<lparr>messages := loopMessages st3\<rparr>)
                            | Stop e \<Rightarrow> Stop e))))"

text \<open>The loop, \<open>n\<close> passes being left, and the \<^verbatim>\<open>return\<close> after it.\<close>

fun tool_loop :: "world \<Rightarrow> string \<Rightarrow> json list \<Rightarrow> nat \<Rightarrow> run \<Rightarrow> ending" where
  "tool_loop w tenantId tools 0 st =
     Replied (JStr ''Tool orchestration exceeded max iterations.'') st"
| "tool_loop w tenantId tools (Suc n) st =
     (case iteration w tenantId tools st of
        Continue st' \<Rightarrow> tool_loop w tenantId tools n st'
      | Stop e \<Rightarrow> e)"

text \<open>The state after \<open>k\<close> passes that all went round, if they did.\<close>

fun passes :: "world \<Rightarrow> string \<Rightarrow> json list \<Rightarrow> nat \<Rightarrow> run \<Rightarrow> run option" where
  "passes w tenantId tools 0 st = Some st"
| "passes w tenantId tools (Suc k) st =
     (case iteration w tenantId tools st of
        Continue st' \<Rightarrow> passes w tenantId tools k st'
      | Stop e \<Rightarrow> None)"

text \<open>The tool list: the \<^verbatim>\<open>tools\<close> array of the registry's answer, adapted.\<close>

definition load_tools :: "http_response \<Rightarrow> js_error + json list" where
  "load_tools r =
     (let toolsJson = (case parsed r of Some v \<Rightarrow> v | None \<Rightarrow> JNull);
          rawTools = array_or_empty (oprop (Some toolsJson) ''tools'')
      in toOpenAITools (Some (JArr rawTools)))"

definition initial_messages :: "string \<Rightarrow> string \<Rightarrow> message list" where
  "initial_messages system text =
     (if system \<noteq> [] then [SystemMsg system] else []) @ [UserMsg text]"

text \<open>
  The branch of \<^verbatim>\<open>app.post("/api/agent/chat")\<close> for the providers openai, mistral and
  deepseek, under the route's \<^verbatim>\<open>try\<close>/\<^verbatim>\<open>catch\<close>. Its parameters are the strings the
  route has read from the request, the settings and the environment. It gives the answer
  and the requests sent.
\<close>

definition ending_answer :: "ending \<Rightarrow> answer \<times> request list" where
  "ending_answer e =
     (case e of
        Replied reply st \<Rightarrow> (Reply reply, sent st)
      | Failed err st \<Rightarrow> (AgentFailed err, sent st))"

definition agent_chat ::
  "world \<Rightarrow> string \<Rightarrow> string \<Rightarrow> string \<Rightarrow> bool \<Rightarrow> string \<Rightarrow> string \<Rightarrow> string \<Rightarrow> string
     \<Rightarrow> answer \<times> request list" where
  "agent_chat w provider apiKey base enableTools mcpUrl tenantId system text =
     (let messages0 = initial_messages system text
      in if apiKey = [] then (BadRequest ''missing_api_key'' (''Missing '' @ provider @ '' API key''), [])
         else if base = [] then (BadRequest ''missing_base'' (''Missing '' @ provider @ '' base URL''), [])
         else if \<not> (enableTools \<and> mcpUrl \<noteq> []) then
           (case openaiCompatChat (net w [PostChat messages0 []]) of
              Inl e \<Rightarrow> (AgentFailed e, [PostChat messages0 []])
            | Inr out \<Rightarrow>
                (Reply (or_else (oprop (oprop (oprop (oprop (Some out) ''choices'') ''0'') ''message'')
                          ''content'') (JStr [])),
                 [PostChat messages0 []]))
         else
           (case net w [GetTools mcpUrl tenantId] of
              Rejected e \<Rightarrow> (AgentFailed (FetchError e), [GetTools mcpUrl tenantId])
            | Resolved r \<Rightarrow>
                (case load_tools r of
                   Inl e \<Rightarrow> (AgentFailed e, [GetTools mcpUrl tenantId])
                 | Inr tools \<Rightarrow>
                     ending_answer
                       (tool_loop w tenantId tools 6
                          \<lparr>messages = messages0, loopMessages = messages0,
                           sent = [GetTools mcpUrl tenantId]\<rparr>))))"

text \<open>
  The alternation the providers check: each assistant message with a non-empty list of
  tool calls is followed at once by one tool message per call, in the calls' order and
  with the calls' ids, and by no further tool message.
\<close>

fun tool_block :: "json list \<Rightarrow> message list \<Rightarrow> bool" where
  "tool_block [] (ToolMsg i c # ms) = False"
| "tool_block [] ms = True"
| "tool_block (tc # tcs) (ToolMsg i c # ms) = (i = own tc ''id'' \<and> tool_block tcs ms)"
| "tool_block (tc # tcs) ms = False"

fun alternates :: "message list \<Rightarrow> bool" where
  "alternates [] = True"
| "alternates (AssistantMsg c tcs # ms) =
     ((case iterable tcs of
         Some (tc # calls) \<Rightarrow> tool_block (tc # calls) ms
       | _ \<Rightarrow> True) \<and> alternates ms)"
| "alternates (m # ms) = alternates ms"

text \<open>The run a step or an ending leaves.\<close>

fun ending_run :: "ending \<Rightarrow> run" where
  "ending_run (Replied reply st) = st"
| "ending_run (Failed err st) = st"

fun step_run :: "step \<Rightarrow> run" where
  "step_run (Continue st) = st"
| "step_run (Stop e) = ending_run e"

text \<open>The test \<^verbatim>\<open>!toolCalls.length\<close> on a reply.\<close>

definition no_tool_calls :: "json \<Rightarrow> bool" where
  "no_tool_calls out = (\<not> truthy (own (reply_tool_calls out) ''length''))"

text \<open>A reply whose \<^verbatim>\<open>tool_calls\<close> is an array with at least one entry and no null entry.\<close>

definition has_tool_calls :: "json \<Rightarrow> bool" where
  "has_tool_calls out =
     (case reply_tool_calls out of
        JArr (tc # tcs) \<Rightarrow> list_all (\<lambda>c. c \<noteq> JNull) (tc # tcs)
      | _ \<Rightarrow> False)"

text \<open>The chat requests among the requests sent.\<close>

fun is_chat :: "request \<Rightarrow> bool" where
  "is_chat (PostChat ms ts) = True"
| "is_chat r = False"

fun is_call :: "request \<Rightarrow> bool" where
  "is_call (PostCall n a t) = True"
| "is_call r = False"

section \<open>The registry server\<close>

subsection \<open>Trace buffer\<close>

record event =
  ts :: nat
  kind :: string
  tenant :: string
  meta :: json
  payload :: json

text \<open>\<^verbatim>\<open>while (_log.length > LOG_MAX) _log.shift()\<close>, \<open>LOG_MAX\<close> being a capacity.\<close>

function evict :: "nat \<Rightarrow> 'a list \<Rightarrow> 'a list" where
  "evict LOG_MAX buf = (if length buf > LOG_MAX then evict LOG_MAX (tl buf) else buf)"
  by pat_completeness auto
termination
  by (relation "measure (\<lambda>(m, l). length l)") auto

declare evict.simps [simp del]

text \<open>
  \<^verbatim>\<open>pushLog(kind, payload, meta = {}, tenant = "")\<close> at the time \<open>now\<close>; the array
  \<^verbatim>\<open>_log\<close> is passed and returned. The module defines the function and has no call of
  it: the buffer a read sees is what calls of \<^verbatim>\<open>pushLog\<close> have left.
\<close>

definition pushLog ::
  "nat \<Rightarrow> nat \<Rightarrow> string \<Rightarrow> json \<Rightarrow> json option \<Rightarrow> string option \<Rightarrow> event list \<Rightarrow> event list" where
  "pushLog LOG_MAX now k p m t buf =
     evict LOG_MAX
       (buf @ [\<lparr>ts = now, kind = k, tenant = (case t of None \<Rightarrow> [] | Some x \<Rightarrow> x),
                meta = (case m of None \<Rightarrow> JObj [] | Some x \<Rightarrow> x), payload = p\<rparr>])"

text \<open>The buffer after further events were pushed in order.\<close>

fun pushed :: "nat \<Rightarrow> event list \<Rightarrow> event list \<Rightarrow> event list" where
  "pushed LOG_MAX buf [] = buf"
| "pushed LOG_MAX buf (e # es) =
     pushed LOG_MAX
       (pushLog LOG_MAX (ts e) (kind e) (payload e) (Some (meta e)) (Some (tenant e)) buf) es"

text \<open>
  The numbers of the read route: what \<^verbatim>\<open>Number(...)\<close> can give. \<^verbatim>\<open>Math.min\<close>, unary
  minus, and the start index \<^verbatim>\<open>Array.prototype.slice\<close> computes from its argument.
\<close>

datatype jsnum = NaN | PosInf | NegInf | Fin rat

fun js_min :: "jsnum \<Rightarrow> jsnum \<Rightarrow> jsnum" where
  "js_min NaN b = NaN"
| "js_min a NaN = NaN"
| "js_min NegInf b = NegInf"
| "js_min a NegInf = NegInf"
| "js_min PosInf b = b"
| "js_min a PosInf = a"
| "js_min (Fin x) (Fin y) = Fin (min x y)"

fun js_neg :: "jsnum \<Rightarrow> jsnum" where
  "js_neg NaN = NaN"
| "js_neg PosInf = NegInf"
| "js_neg NegInf = PosInf"
| "js_neg (Fin x) = Fin (- x)"

definition toInteger :: "rat \<Rightarrow> int" where
  "toInteger q = (if q < 0 then \<lceil>q\<rceil> else \<lfloor>q\<rfloor>)"

fun slice_from :: "jsnum \<Rightarrow> 'a list \<Rightarrow> 'a list" where
  "slice_from NaN xs = xs"
| "slice_from NegInf xs = xs"
| "slice_from PosInf xs = []"
| "slice_from (Fin q) xs =
     (let rel = toInteger q; len = int (length xs)
      in if rel < 0 then drop (nat (max (len + rel) 0)) xs
         else drop (nat (min rel len)) xs)"

text \<open>
  \<^verbatim>\<open>app.get("/api/logs")\<close>. The query is \<open>None\<close> when \<^verbatim>\<open>req.query.limit\<close> is absent or
  empty, so that \<^verbatim>\<open>|| 200\<close> takes over, and \<open>Some n\<close> when \<^verbatim>\<open>Number\<close> of it is \<open>n\<close>.
\<close>

definition api_logs :: "nat \<Rightarrow> jsnum option \<Rightarrow> event list \<Rightarrow> event list" where
  "api_logs LOG_MAX q buf =
     (let limit = js_min (case q of None \<Rightarrow> Fin 200 | Some n \<Rightarrow> n) (Fin (of_nat LOG_MAX))
      in slice_from (js_neg limit) buf)"

subsection \<open>Tenants\<close>

text \<open>
  The registry of tenants: the value \<^verbatim>\<open>TENANTS_JSON\<close> parses to where it is set and
  parses, whatever that value is, and the one tenant \<^verbatim>\<open>default\<close> built from the
  environment otherwise.
\<close>

definition env_field :: "string \<Rightarrow> string option \<Rightarrow> (string \<times> json) list" where
  "env_field k v = (case v of None \<Rightarrow> [] | Some x \<Rightarrow> [(k, JStr x)])"

definition loadTenants ::
  "(string \<Rightarrow> json option) \<Rightarrow> string option \<Rightarrow> string option \<Rightarrow> string option
     \<Rightarrow> string option \<Rightarrow> string option \<Rightarrow> json" where
  "loadTenants parse_json TENANTS_JSON MAXIMO_URL MAXIMO_APIKEY MAXIMO_USER MAXIMO_PASSWORD =
     (case (case TENANTS_JSON of
              None \<Rightarrow> None
            | Some x \<Rightarrow> if x \<noteq> [] then parse_json x else None) of
        Some tenants \<Rightarrow> tenants
      | None \<Rightarrow>
          JObj [(''default'',
            JObj (env_field ''baseUrl'' MAXIMO_URL @ env_field ''apiKey'' MAXIMO_APIKEY @
                  env_field ''user'' MAXIMO_USER @ env_field ''password'' MAXIMO_PASSWORD))])"

definition strip_slash :: "string \<Rightarrow> string" where
  "strip_slash b = (if b \<noteq> [] \<and> last b = CHR ''/'' then butlast b else b)"

definition ends_with :: "string \<Rightarrow> string \<Rightarrow> bool" where
  "ends_with b suf = (length suf \<le> length b \<and> drop (length b - length suf) b = suf)"

definition mkBaseApi :: "jsval \<Rightarrow> js_error + string option" where
  "mkBaseApi base =
     (if \<not> truthy base then Inr None
      else
        (case js_String base of
           Inl e \<Rightarrow> Inl e
         | Inr s \<Rightarrow>
             (let b = strip_slash s
              in if ends_with b ''/api'' \<or> ends_with b ''/api/'' then Inr (Some b)
                 else if ends_with b ''/maximo'' \<or> ends_with b ''/maximo/'' then Inr (Some (b @ ''/api''))
                 else Inr (Some (b @ ''/maximo/api'')))))"

text \<open>
  \<^verbatim>\<open>tenants[tenantId]\<close> reads an own property of the registry or, failing that, a
  property it inherits. Every value but null inherits the properties of
  \<^verbatim>\<open>Object.prototype\<close>: functions and, under \<^verbatim>\<open>__proto__\<close>, a prototype object, all
  truthy and with no \<^verbatim>\<open>baseUrl\<close>. A registry that is an array, a string, a number or a
  boolean inherits further methods from its own prototype; \<^verbatim>\<open>default\<close> is none of
  them and such a registry has no own \<^verbatim>\<open>default\<close>, so that a request naming one of
  them is refused exactly as one naming a missing property is, and \<open>lookup\<close> gives
  \<open>Missing\<close> for both. Reading a property of null throws.
\<close>

definition object_prototype_names :: "string list" where
  "object_prototype_names =
     [''constructor'', ''__defineGetter__'', ''__defineSetter__'', ''hasOwnProperty'',
      ''__lookupGetter__'', ''__lookupSetter__'', ''isPrototypeOf'', ''propertyIsEnumerable'',
      ''toString'', ''valueOf'', ''__proto__'', ''toLocaleString'']"

datatype property = Own json | Inherited | Missing

definition lookup :: "json \<Rightarrow> string \<Rightarrow> property" where
  "lookup tenants k =
     (case own tenants k of
        Some v \<Rightarrow> Own v
      | None \<Rightarrow> if k \<in> set object_prototype_names then Inherited else Missing)"

datatype registry_error = NotConfigured string | BadUrl string | Thrown js_error

record tenant_context =
  config :: json
  api :: string

text \<open>
  The tenant \<^verbatim>\<open>tenants[tenantId] || tenants.default\<close> that \<^verbatim>\<open>tenantOrThrow\<close> resolves:
  \<open>Own v\<close> for a value of the registry, \<open>Inherited\<close> for an inherited property,
  \<open>Missing\<close> for \<^verbatim>\<open>undefined\<close>.
\<close>

definition resolve :: "json \<Rightarrow> string \<Rightarrow> property" where
  "resolve tenants tenantId =
     (case lookup tenants tenantId of
        Own v \<Rightarrow> if truthy (Some v) then Own v
                 else (case own tenants ''default'' of Some d \<Rightarrow> Own d | None \<Rightarrow> Missing)
      | Inherited \<Rightarrow> Inherited
      | Missing \<Rightarrow> (case own tenants ''default'' of Some d \<Rightarrow> Own d | None \<Rightarrow> Missing))"

definition tenantOrThrow :: "json \<Rightarrow> string \<Rightarrow> registry_error + tenant_context" where
  "tenantOrThrow tenants tenantId =
     (if tenants = JNull then Inl (Thrown TypeError)
      else
        (case resolve tenants tenantId of
           Own t \<Rightarrow>
             if \<not> truthy (Some t) \<or> \<not> truthy (oprop (Some t) ''baseUrl'')
             then Inl (NotConfigured tenantId)
             else (case mkBaseApi (oprop (Some t) ''baseUrl'') of
                     Inl e \<Rightarrow> Inl (Thrown e)
                   | Inr None \<Rightarrow> Inl (BadUrl tenantId)
                   | Inr (Some a) \<Rightarrow> Inr \<lparr>config = t, api = a\<rparr>)
         | Inherited \<Rightarrow> Inl (NotConfigured tenantId)
         | Missing \<Rightarrow> Inl (NotConfigured tenantId)))"

subsection \<open>Tool invocation\<close>

text \<open>\<^verbatim>\<open>a || b\<close> and \<^verbatim>\<open>a && b\<close> between two expressions.\<close>

definition or_val :: "jsval \<Rightarrow> jsval \<Rightarrow> jsval" where
  "or_val a b = (if truthy a then a else b)"

definition and_val :: "jsval \<Rightarrow> jsval \<Rightarrow> jsval" where
  "and_val a b = (if truthy a then b else a)"

text \<open>
  What \<^verbatim>\<open>app.post("/mcp/call")\<close> reads from the request body: the tool, the arguments
  and the tenant id.
\<close>

definition call_tool :: "jsval \<Rightarrow> jsval" where
  "call_tool reqbody =
     (let body = or_else reqbody (JObj [])
      in or_val (oprop (Some body) ''tool'') (oprop (Some body) ''name''))"

definition call_args :: "jsval \<Rightarrow> json" where
  "call_args reqbody = or_else (oprop (Some (or_else reqbody (JObj []))) ''args'') (JObj [])"

definition call_tenant :: "jsval \<Rightarrow> js_error + string" where
  "call_tenant reqbody =
     (let body = or_else reqbody (JObj []);
          args = call_args reqbody
      in js_String
           (Some (or_else (or_val (oprop (Some body) ''tenant'')
                             (and_val (Some args) (oprop (Some args) ''tenant'')))
                    (JStr ''default''))))"

text \<open>
  The route up to the branch it takes: an error thrown before the route's first
  \<^verbatim>\<open>try\<close>, which the route does not catch, the 400 of an unresolved tenant, one of the
  three tools with the tenant resolved, or the 400 of an unknown tool. The request to
  Maximo that a tool then makes is not part of this.
\<close>

datatype dispatched =
    Unhandled js_error
  | Refused registry_error
  | ListOS tenant_context
  | QueryOS tenant_context json
  | Create tenant_context json
  | UnknownTool jsval

definition mcp_call :: "json \<Rightarrow> jsval \<Rightarrow> dispatched" where
  "mcp_call tenants reqbody =
     (let tool = call_tool reqbody;
          args = call_args reqbody
      in case call_tenant reqbody of
           Inl e \<Rightarrow> Unhandled e
         | Inr tenantId \<Rightarrow>
             (case tenantOrThrow tenants tenantId of
                Inl e \<Rightarrow> Refused e
              | Inr t \<Rightarrow>
                  if tool = Some (JStr ''maximo.listOS'') then ListOS t
                  else if tool = Some (JStr ''maximo.queryOS'') then QueryOS t args
                  else if tool = Some (JStr ''maximo.create'') then Create t args
                  else UnknownTool tool))"

text \<open>
  The body the agent's loop posts, as the registry parses it:
  \<^verbatim>\<open>JSON.stringify({ name, args, tenant })\<close> leaves out a \<^verbatim>\<open>name\<close> that is
  \<^verbatim>\<open>undefined\<close>.
\<close>

definition call_body :: "jsval \<Rightarrow> json \<Rightarrow> string \<Rightarrow> json" where
  "call_body name args tenantId =
     JObj ((case name of None \<Rightarrow> [] | Some n \<Rightarrow> [(''name'', n)]) @
           [(''args'', args), (''tenant'', JStr tenantId)])"

fun request_body :: "request \<Rightarrow> jsval" where
  "request_body (PostCall name args tenantId) = Some (call_body name args tenantId)"
| "request_body r = None"

subsection \<open>The routes and the buffer\<close>

text \<open>The tools that \<^verbatim>\<open>app.get("/mcp/tools")\<close> passes to \<^verbatim>\<open>mcpToOpenAITools\<close>.\<close>

definition mcp_tools :: "json list" where
  "mcp_tools =
     [JObj [(''name'', JStr ''maximo.listOS''),
            (''description'', JStr ''List object structures (/os)''),
            (''inputSchema'',
               JObj [(''type'', JStr ''object''), (''properties'', JObj []),
                     (''additionalProperties'', JBool False)])],
      JObj [(''name'', JStr ''maximo.queryOS''),
            (''description'', JStr ''Query an object structure with OSLC params''),
            (''inputSchema'',
               JObj [(''type'', JStr ''object''),
                     (''properties'',
                        JObj [(''os'', JObj [(''type'', JStr ''string''),
                                 (''description'', JStr ''Object Structure name (e.g., MXWO)'')]),
                              (''params'', JObj [(''type'', JStr ''object''),
                                 (''description'',
                                    JStr ''OSLC query params (oslc.where, oslc.select, oslc.pageSize, ...)'')])]),
                     (''required'', JArr [JStr ''os'']),
                     (''additionalProperties'', JBool False)])],
      JObj [(''name'', JStr ''maximo.create''),
            (''description'', JStr ''Create record in an OS (POST)''),
            (''inputSchema'',
               JObj [(''type'', JStr ''object''),
                     (''properties'',
                        JObj [(''os'', JObj [(''type'', JStr ''string''),
                                 (''description'', JStr ''Object Structure name'')]),
                              (''body'', JObj [(''type'', JStr ''object''),
                                 (''description'', JStr ''Record payload'')])]),
                     (''required'', JArr [JStr ''os'', JStr ''body'']),
                     (''additionalProperties'', JBool False)])]]"






section \<open>Example inputs\<close>

text \<open>
  Concrete worlds and inputs on which the theorems below are instantiated. The provider
  asks for the tool \<^verbatim>\<open>maximo.listOS\<close> or gives the final text \<^verbatim>\<open>done\<close>; the registry
  answers each request as the world says; \<^verbatim>\<open>JSON.parse\<close> is needed on the argument
  text \<^verbatim>\<open>{}\<close> only.
\<close>

definition listos_call :: json where
  "listos_call =
     JObj [(''id'', JStr ''call_1''), (''type'', JStr ''function''),
           (''function'', JObj [(''name'', JStr ''maximo.listOS''), (''arguments'', JStr ''{}'')])]"

definition calling_reply :: json where
  "calling_reply =
     JObj [(''choices'',
            JArr [JObj [(''message'',
                         JObj [(''role'', JStr ''assistant''), (''content'', JNull),
                               (''tool_calls'', JArr [listos_call])])]])]"

definition final_reply :: json where
  "final_reply =
     JObj [(''choices'',
            JArr [JObj [(''message'',
                         JObj [(''role'', JStr ''assistant''), (''content'', JStr ''done'')])]])]"

definition listos_tool :: json where
  "listos_tool =
     function_tool ''maximo.listOS'' ''List object structures (/os)''
       (JObj [(''type'', JStr ''object''), (''properties'', JObj []),
              (''additionalProperties'', JBool False)])"

definition json_response :: "nat \<Rightarrow> string \<Rightarrow> json \<Rightarrow> http_response" where
  "json_response code body v = \<lparr>status = code, json_type = True, raw = body, parsed = Some v\<rparr>"

definition text_response :: "nat \<Rightarrow> string \<Rightarrow> http_response" where
  "text_response code body = \<lparr>status = code, json_type = False, raw = body, parsed = None\<rparr>"

definition tools_response :: http_response where
  \<open>tools_response =
     json_response 200
       ''{"tools":[{"type":"function","function":{"name":"maximo.listOS","description":"List object structures (/os)","parameters":{"type":"object","properties":{},"additionalProperties":false}}}]}''
       (JObj [(''tools'', JArr [listos_tool])])\<close>

definition calling_response :: http_response where
  \<open>calling_response =
     json_response 200
       ''{"choices":[{"message":{"role":"assistant","content":null,"tool_calls":[{"id":"call_1","type":"function","function":{"name":"maximo.listOS","arguments":"{}"}}]}}]}''
       calling_reply\<close>

definition final_response :: http_response where
  \<open>final_response =
     json_response 200
       ''{"choices":[{"message":{"role":"assistant","content":"done"}}]}''
       final_reply\<close>

definition member_response :: http_response where
  \<open>member_response = json_response 200 ''{"member":[]}'' (JObj [(''member'', JArr [])])\<close>

definition refused_response :: http_response where
  \<open>refused_response =
     json_response 400 ''{"error":"Error: Tenant is not configured: default"}''
       (JObj [(''error'', JStr ''Error: Tenant is not configured: default'')])\<close>

definition bad_gateway_response :: http_response where
  "bad_gateway_response = text_response 502 ''<html><body>Bad Gateway</body></html>''"

text \<open>A tool list whose only entry has a name that \<^verbatim>\<open>String\<close> cannot convert.\<close>

definition unprintable_response :: http_response where
  \<open>unprintable_response =
     json_response 200 ''{"tools":[{"name":{"toString":1}}]}''
       (JObj [(''tools'', JArr [JObj [(''name'', JObj [(''toString'', JNum ''1'')])]])])\<close>

definition parse_braces :: "string \<Rightarrow> json option" where
  "parse_braces s = (if s = ''{}'' then Some (JObj []) else None)"

text \<open>
  A world by the kind of the last request: the answer on the tool list, on a chat
  request (given the history) and on a tool invocation.
\<close>

definition world_of :: "fetched \<Rightarrow> (request list \<Rightarrow> fetched) \<Rightarrow> fetched \<Rightarrow> world" where
  "world_of on_tools on_chat on_call =
     \<lparr>net = (\<lambda>h. case last h of
                    GetTools u t \<Rightarrow> on_tools
                  | PostChat ms tools \<Rightarrow> on_chat h
                  | PostCall n a t \<Rightarrow> on_call),
      parse = parse_braces\<rparr>"

text \<open>The provider's first reply asks for the tool, every later one is final.\<close>

definition call_once :: "request list \<Rightarrow> fetched" where
  "call_once h = (if list_ex is_call h then Resolved final_response else Resolved calling_response)"

text \<open>The run after its first pass in that world, when the registry lists no members.\<close>

definition after_one :: run where
  "after_one =
     \<lparr>messages =
        [SystemMsg ''You are a Maximo assistant.'', UserMsg ''list the object structures'',
         AssistantMsg (JStr []) (JArr [listos_call]),
         ToolMsg (Some (JStr ''call_1'')) (JObj [(''member'', JArr [])])],
      loopMessages =
        [SystemMsg ''You are a Maximo assistant.'', UserMsg ''list the object structures'',
         AssistantMsg (JStr []) (JArr [listos_call]),
         ToolMsg (Some (JStr ''call_1'')) (JObj [(''member'', JArr [])])],
      sent =
        [GetTools ''http://mcp-server:8081'' ''default'',
         PostChat [SystemMsg ''You are a Maximo assistant.'', UserMsg ''list the object structures'']
           [listos_tool],
         PostCall (Some (JStr ''maximo.listOS'')) (JObj []) ''default'']\<rparr>"

text \<open>
  The run once the provider's first reply is in the conversation, and the run after the
  registry has refused the invocation with a JSON body.
\<close>

definition asked :: run where
  "asked =
     \<lparr>messages =
        [SystemMsg ''You are a Maximo assistant.'', UserMsg ''list the object structures''],
      loopMessages =
        [SystemMsg ''You are a Maximo assistant.'', UserMsg ''list the object structures'',
         AssistantMsg (JStr []) (JArr [listos_call])],
      sent =
        [GetTools ''http://mcp-server:8081'' ''default'',
         PostChat [SystemMsg ''You are a Maximo assistant.'', UserMsg ''list the object structures'']
           [listos_tool]]\<rparr>"

definition refused :: run where
  "refused =
     \<lparr>messages =
        [SystemMsg ''You are a Maximo assistant.'', UserMsg ''list the object structures''],
      loopMessages =
        [SystemMsg ''You are a Maximo assistant.'', UserMsg ''list the object structures'',
         AssistantMsg (JStr []) (JArr [listos_call]),
         ToolMsg (Some (JStr ''call_1''))
           (JObj [(''error'', JStr ''Error: Tenant is not configured: default'')])],
      sent =
        [GetTools ''http://mcp-server:8081'' ''default'',
         PostChat [SystemMsg ''You are a Maximo assistant.'', UserMsg ''list the object structures'']
           [listos_tool],
         PostCall (Some (JStr ''maximo.listOS'')) (JObj []) ''default'']\<rparr>"

definition start :: run where
  "start =
     \<lparr>messages = initial_messages ''You are a Maximo assistant.'' ''list the object structures'',
      loopMessages = initial_messages ''You are a Maximo assistant.'' ''list the object structures'',
      sent = [GetTools ''http://mcp-server:8081'' ''default'']\<rparr>"

text \<open>Raw descriptors: one ready for OpenAI, one native with blanks around its name, a null, and one with a blank name.\<close>

definition raw_tools :: jsval where
  "raw_tools =
     Some (JArr
       [JObj [(''type'', JStr ''function''),
              (''function'', JObj [(''name'', JStr ''maximo.listOS''), (''parameters'', JNum ''3'')])],
        JObj [(''name'', JStr '' maximo.queryOS ''),
              (''inputSchema'', JObj [(''type'', JStr ''object'')])],
        JNull,
        JObj [(''name'', JStr '' '')]])"

text \<open>A descriptor in the OpenAI shape whose name is the empty array.\<close>

definition array_named :: json where
  "array_named = JObj [(''type'', JStr ''function''), (''function'', JObj [(''name'', JArr [])])]"

text \<open>A descriptor in the registry's own shape with the same name.\<close>

definition array_named_native :: json where
  "array_named_native = JObj [(''name'', JArr [])]"

definition sample_event :: "nat \<Rightarrow> event" where
  "sample_event n =
     \<lparr>ts = n, kind = ''rx_agent'', tenant = ''default'', meta = JObj [], payload = JNum (digits n)\<rparr>"

definition one_tenant :: json where
  "one_tenant =
     JObj [(''default'', JObj [(''baseUrl'', JStr ''https://manage.example.com/maximo''),
                               (''apiKey'', JStr ''k'')])]"

section \<open>Properties of the Tool Schema Adapter\<close>

lemma js_String_Some:
  "js_String (Some v) = (if printable v then Inr (to_string v) else Inl TypeError)"
  by (simp add: js_String_def)

lemma ready_name:
  "openai_ready t \<Longrightarrow>
   oprop (oprop (Some t) ''function'') ''name'' =
     Some (or_else (oprop (oprop (Some t) ''function'') ''name'') (JStr []))"
  by (cases "oprop (oprop (Some t) ''function'') ''name''") (auto simp: openai_ready_def or_else_def)

lemma toOpenAITools_loop_Cons:
  "toOpenAITools_loop (t # rest) out =
     (if throws t then Inl TypeError
      else toOpenAITools_loop rest (if named t then out @ [descriptor t] else out))"
proof (cases "openai_ready t")
  case True
  from ready_name [OF True] obtain v
    where v: "oprop (oprop (Some t) ''function'') ''name'' = Some v"
      and o: "or_else (oprop (oprop (Some t) ''function'') ''name'') (JStr []) = v"
    by simp
  from True v o show ?thesis
    by (simp add: js_String_Some throws_def named_def descriptor_def descriptor_name_def
        descriptor_schema_def descriptor_description_def)
next
  case False
  then show ?thesis
    by (simp add: js_String_Some throws_def named_def descriptor_def descriptor_name_def
        descriptor_schema_def descriptor_description_def native_name_def Let_def)
qed

lemma toOpenAITools_loop_eq:
  "toOpenAITools_loop xs out =
     (if list_ex throws xs then Inl TypeError else Inr (out @ map descriptor (filter named xs)))"
  by (induction xs arbitrary: out) (simp_all add: toOpenAITools_loop_Cons del: toOpenAITools_loop.simps(2))

lemma array_or_empty_arr: "array_or_empty (Some (JArr xs)) = xs"
  by (simp add: array_or_empty_def)

lemma toOpenAITools_eq:
  "toOpenAITools tools =
     (if list_ex throws (array_or_empty tools) then Inl TypeError
      else Inr (map descriptor (filter named (array_or_empty tools))))"
  by (simp add: toOpenAITools_def toOpenAITools_loop_eq)

lemma digits_nonempty: "digits n \<noteq> []"
  by (subst digits.simps) simp

text \<open>Only the number 0 has the text \<^verbatim>\<open>0\<close>: a length is truthy unless it is 0.\<close>

lemma digits_eq_0 [simp]: "(digits n = ''0'') = (n = 0)"
proof (cases "n < 10")
  case True
  then have "n \<in> {0, 1, 2, 3, 4, 5, 6, 7, 8, 9}"
    by auto
  then show ?thesis
    by (auto simp: digits.simps [of n] digit_char_def)
next
  case False
  then have "digits n = digits (n div 10) @ [digit_char (n mod 10)]"
    by (simp add: digits.simps [of n])
  moreover have "digits (n div 10) \<noteq> []"
    by (rule digits_nonempty)
  ultimately have "length (digits n) \<noteq> length ''0''"
    by (cases "digits (n div 10)") simp_all
  with False show ?thesis
    by auto
qed

lemma schema_or_default_fixed:
  "schema_or_default (Some (schema_or_default p)) = schema_or_default p"
  by (cases p) (auto simp: schema_or_default_def default_schema_def)

lemma schema_or_default_absent: "no_schema p \<Longrightarrow> schema_or_default p = default_schema"
  by (cases p) (auto simp: schema_or_default_def no_schema_def)

lemma tool_name_function_tool: "tool_name (function_tool n d p) = Some (JStr n)"
  by (simp add: tool_name_def function_tool_def oprop_def)

lemma tool_parameters_function_tool: "tool_parameters (function_tool n d p) = Some p"
  by (simp add: tool_parameters_def function_tool_def oprop_def)

lemma has_name_function_tool: "has_name (function_tool n d p) = (n \<noteq> [])"
  by (simp add: has_name_def tool_name_function_tool)

lemma named_function_tool: "named (function_tool n d p) = (n \<noteq> [])"
  by (simp add: named_def openai_ready_def function_tool_def oprop_def native_name_def
      or_else_def trim_def)

lemma throws_function_tool: "\<not> throws (function_tool n d p)"
  by (simp add: throws_def openai_ready_def function_tool_def oprop_def or_else_def native_name_def)

lemma descriptor_function_tool:
  "n \<noteq> [] \<Longrightarrow>
   descriptor (function_tool n d (schema_or_default p)) = function_tool n d (schema_or_default p)"
  by (simp add: descriptor_def descriptor_name_def descriptor_schema_def descriptor_description_def
      openai_ready_def function_tool_def oprop_def or_else_def schema_or_default_fixed)

lemma descriptor_again: "descriptor_name t \<noteq> [] \<Longrightarrow> descriptor (descriptor t) = descriptor t"
  by (simp add: descriptor_def [of t] descriptor_function_tool)

lemma named_descriptor: "named (descriptor t) = (descriptor_name t \<noteq> [])"
  by (simp add: descriptor_def named_function_tool)

lemma has_name_descriptor: "has_name (descriptor t) = (descriptor_name t \<noteq> [])"
  by (simp add: descriptor_def has_name_function_tool)

lemma throws_descriptor: "\<not> throws (descriptor t)"
  by (simp add: descriptor_def throws_function_tool)

text \<open>
  A second run of the adapter does not throw; it keeps the descriptors that have a name
  and drops the rest.
\<close>

lemma adapter_twice:
  "toOpenAITools (Some (JArr (map descriptor xs))) = Inr (filter has_name (map descriptor xs))"
proof -
  have "map descriptor (filter named (map descriptor ys)) = filter has_name (map descriptor ys)"
    for ys
  proof (induction ys)
    case Nil
    show ?case by simp
  next
    case (Cons t ys)
    then show ?case
      by (simp add: named_descriptor has_name_descriptor descriptor_again)
  qed
  moreover have "\<not> list_ex throws (map descriptor xs)"
    by (simp add: list_ex_iff throws_descriptor)
  ultimately show ?thesis
    by (simp add: toOpenAITools_eq array_or_empty_arr)
qed

lemma names_print_iff:
  "names_print tools =
     list_all has_name (map descriptor (filter named (array_or_empty tools)))"
  by (auto simp: names_print_def list_all_iff has_name_descriptor descriptor_name_def named_def)

text \<open>An entry of the first branch whose name is a string has a name that prints.\<close>

lemma names_print_strings:
  assumes "\<And>t. t \<in> set (array_or_empty tools) \<Longrightarrow> openai_ready t \<Longrightarrow>
             \<exists>n. oprop (oprop (Some t) ''function'') ''name'' = Some (JStr n)"
  shows "names_print tools"
  unfolding names_print_def list_all_iff
proof (intro ballI impI)
  fix t
  assume t: "t \<in> set (array_or_empty tools)" and r: "openai_ready t"
  from assms [OF t r] obtain n where n: "oprop (oprop (Some t) ''function'') ''name'' = Some (JStr n)"
    by blast
  with r show "descriptor_name t \<noteq> []"
    by (simp add: descriptor_name_def openai_ready_def or_else_def)
qed

lemma map_throwing_eq:
  "map_throwing mcp_descriptor xs =
     (if list_ex mcp_throws xs then Inl TypeError else Inr (map mcp_tool xs))"
  by (induction xs)
     (simp_all add: mcp_descriptor_def mcp_tool_def mcp_throws_def mcp_name_def js_String_Some)

lemma mcpToOpenAITools_eq:
  "mcpToOpenAITools tools =
     (if list_ex mcp_throws (array_or_empty tools) then Inl TypeError
      else Inr (map mcp_tool (filter (\<lambda>t. mcp_name t \<noteq> []) (array_or_empty tools))))"
proof -
  have "truthy (oprop (oprop (Some (mcp_tool t)) ''function'') ''name'') = (mcp_name t \<noteq> [])"
    for t
    by (simp add: mcp_tool_def function_tool_def oprop_def)
  then show ?thesis
    by (simp add: mcpToOpenAITools_def map_throwing_eq filter_map comp_def)
qed

text \<open>
  On an input on which \<^verbatim>\<open>toOpenAITools\<close> does not throw, it returns, and running it
  on its own output gives that output again exactly when no entry that the first branch
  takes has a name that \<^verbatim>\<open>String\<close> prints as the empty string.
\<close>

lemma toOpenAITools_twice:
  assumes "\<not> list_ex throws (array_or_empty tools)"
  shows "\<exists>out. toOpenAITools tools = Inr out \<and>
           ((toOpenAITools (Some (JArr out)) = Inr out) = names_print tools)"
proof -
  let ?out = "map descriptor (filter named (array_or_empty tools))"
  from assms have first: "toOpenAITools tools = Inr ?out"
    by (simp add: toOpenAITools_eq)
  have second: "toOpenAITools (Some (JArr ?out)) = Inr (filter has_name ?out)"
    by (rule adapter_twice)
  have "(filter has_name ?out = ?out) = names_print tools"
    by (simp add: names_print_iff list_all_iff filter_id_conv)
  with first second show ?thesis
    by simp
qed

text \<open>
  The output of \<^verbatim>\<open>toOpenAITools\<close> keeps the order of the input, and holds no descriptor
  with an empty name when no entry of the first branch has a name that prints as the
  empty string. Both adapters replace a schema that is absent or no object by the
  default schema, and \<^verbatim>\<open>mcpToOpenAITools\<close> never emits an empty name.
\<close>

lemma toOpenAITools_has_name:
  "names_print tools \<Longrightarrow> toOpenAITools tools = Inr out \<Longrightarrow> list_all has_name out"
  by (simp add: names_print_iff toOpenAITools_eq split: if_splits)

lemma descriptor_default_schema:
  "no_schema (descriptor_schema t) \<Longrightarrow> tool_parameters (descriptor t) = Some default_schema"
  by (simp add: descriptor_def tool_parameters_function_tool schema_or_default_absent)

lemma mcp_tool_default_schema:
  "no_schema (oprop (Some t) ''inputSchema'') \<Longrightarrow>
   tool_parameters (mcp_tool t) = Some default_schema"
  by (simp add: mcp_tool_def tool_parameters_function_tool schema_or_default_absent)

lemma mcpToOpenAITools_has_name:
  "mcpToOpenAITools tools = Inr out \<Longrightarrow> list_all has_name out"
  by (auto simp: mcpToOpenAITools_eq list_all_iff mcp_tool_def has_name_function_tool
      split: if_splits)

text \<open>
  The tools the registry lists have strings for names: the agent's adapter gives the
  registry's list back as it is.
\<close>

lemma mcp_tools_listed:
  "\<exists>out. mcpToOpenAITools (Some (JArr mcp_tools)) = Inr out \<and>
         map tool_name out =
           [Some (JStr ''maximo.listOS''), Some (JStr ''maximo.queryOS''),
            Some (JStr ''maximo.create'')] \<and>
         toOpenAITools (Some (JArr out)) = Inr out"
proof -
  let ?out = "map mcp_tool (filter (\<lambda>t. mcp_name t \<noteq> []) mcp_tools)"
  have nt: "\<not> list_ex mcp_throws mcp_tools"
    by (simp add: mcp_tools_def mcp_throws_def oprop_def or_else_def)
  then have listed: "mcpToOpenAITools (Some (JArr mcp_tools)) = Inr ?out"
    by (simp add: mcpToOpenAITools_eq array_or_empty_arr)
  have names: "map tool_name ?out =
      [Some (JStr ''maximo.listOS''), Some (JStr ''maximo.queryOS''), Some (JStr ''maximo.create'')]"
    by (simp add: mcp_tools_def mcp_name_def mcp_tool_def oprop_def or_else_def
        tool_name_function_tool)
  have "\<not> throws (mcp_tool t)" "named (mcp_tool t) = (mcp_name t \<noteq> [])"
    "mcp_name t \<noteq> [] \<Longrightarrow> descriptor (mcp_tool t) = mcp_tool t" for t
    by (simp_all add: mcp_tool_def throws_function_tool named_function_tool
        descriptor_function_tool)
  then have "toOpenAITools (Some (JArr ?out)) = Inr ?out"
    by (simp add: toOpenAITools_eq array_or_empty_arr list_ex_iff filter_map comp_def
        cong: map_cong filter_cong)
  with listed names show ?thesis
    by (intro exI [of _ ?out] conjI)
qed

text \<open>
  A run on raw descriptors of both shapes: the name of the second loses its blanks, the
  null and the blank name are dropped, and a second run changes nothing.
\<close>

lemma raw_tools_adapted:
  "\<exists>out. toOpenAITools raw_tools = Inr out \<and>
         map tool_name out = [Some (JStr ''maximo.listOS''), Some (JStr ''maximo.queryOS'')] \<and>
         map tool_parameters out =
           [Some default_schema, Some (JObj [(''type'', JStr ''object'')])] \<and>
         toOpenAITools (Some (JArr out)) = Inr out"
proof -
  let ?out = "map descriptor (filter named (array_or_empty raw_tools))"
  have nt: "\<not> list_ex throws (array_or_empty raw_tools)"
    by (simp add: raw_tools_def array_or_empty_def throws_def openai_ready_def oprop_def
        or_else_def native_name_def trim_def is_space_def)
  have np: "names_print raw_tools"
    by (simp add: raw_tools_def names_print_def array_or_empty_def openai_ready_def oprop_def
        descriptor_name_def or_else_def)
  from nt have first: "toOpenAITools raw_tools = Inr ?out"
    by (simp add: toOpenAITools_eq)
  from toOpenAITools_twice [OF nt] np first
  have second: "toOpenAITools (Some (JArr ?out)) = Inr ?out"
    by simp
  have names: "map tool_name ?out = [Some (JStr ''maximo.listOS''), Some (JStr ''maximo.queryOS'')]"
    by (simp add: raw_tools_def array_or_empty_def named_def openai_ready_def oprop_def
        native_name_def or_else_def trim_def is_space_def descriptor_def descriptor_name_def
        tool_name_function_tool)
  have schemas: "map tool_parameters ?out =
      [Some default_schema, Some (JObj [(''type'', JStr ''object'')])]"
    by (simp add: raw_tools_def array_or_empty_def named_def openai_ready_def oprop_def
        native_name_def or_else_def trim_def is_space_def descriptor_def descriptor_schema_def
        tool_parameters_function_tool schema_or_default_def)
  from first names schemas second show ?thesis
    by (intro exI [of _ ?out] conjI)
qed

text \<open>The two branches of \<^verbatim>\<open>toOpenAITools\<close> and the registry's adapter on the name \<^verbatim>\<open>[]\<close>.\<close>

lemma array_named_emitted:
  "toOpenAITools (Some (JArr [array_named])) = Inr [function_tool [] [] default_schema]"
  by (simp add: array_named_def toOpenAITools_def array_or_empty_def openai_ready_def oprop_def
      js_String_def or_else_def schema_or_default_def)

lemma array_named_native_dropped:
  "toOpenAITools (Some (JArr [array_named_native])) = Inr []"
  by (simp add: array_named_native_def toOpenAITools_def array_or_empty_def openai_ready_def
      oprop_def js_String_def or_else_def trim_def Let_def)

lemma array_named_native_filtered:
  "mcpToOpenAITools (Some (JArr [array_named_native])) = Inr []"
  by (simp add: mcpToOpenAITools_eq array_or_empty_arr array_named_native_def mcp_throws_def
      mcp_name_def oprop_def or_else_def)

text \<open>
  C5. Running \<^verbatim>\<open>toOpenAITools\<close> on its own output does not always give that output
  again. The entry \<^verbatim>\<open>{ type: "function", function: { name: [] } }\<close> passes the test of
  the first branch, an array being truthy; \<^verbatim>\<open>String([])\<close> is the empty string, so the
  descriptor emitted has the empty name, and a second run drops it. The second branch
  drops the entry \<^verbatim>\<open>{ name: [] }\<close> on the first run.
\<close>

theorem toOpenAITools_not_idempotent:
  "toOpenAITools (Some (JArr [array_named])) = Inr [function_tool [] [] default_schema] \<and>
   toOpenAITools (Some (JArr [function_tool [] [] default_schema])) = Inr [] \<and>
   toOpenAITools (Some (JArr [array_named_native])) = Inr []"
proof -
  have "toOpenAITools (Some (JArr [function_tool [] [] default_schema])) = Inr []"
    by (simp add: toOpenAITools_eq array_or_empty_arr throws_function_tool named_function_tool)
  with array_named_emitted array_named_native_dropped show ?thesis
    by simp
qed

text \<open>
  C6. The output of the adapter can hold a descriptor with an empty name: for the entry
  \<^verbatim>\<open>{ type: "function", function: { name: [] } }\<close> the first branch of
  \<^verbatim>\<open>toOpenAITools\<close> emits one, where its second branch and the registry's
  \<^verbatim>\<open>mcpToOpenAITools\<close> drop the entry \<^verbatim>\<open>{ name: [] }\<close>.
\<close>

theorem ready_branch_emits_empty_name:
  "(\<exists>out. toOpenAITools (Some (JArr [array_named])) = Inr out \<and>
      map tool_name out = [Some (JStr [])] \<and> \<not> list_all has_name out) \<and>
   toOpenAITools (Some (JArr [array_named_native])) = Inr [] \<and>
   mcpToOpenAITools (Some (JArr [array_named_native])) = Inr []"
  by (simp add: array_named_emitted array_named_native_dropped array_named_native_filtered
      tool_name_function_tool has_name_function_tool)

section \<open>Properties of the chat route\<close>



lemma exec_call_Continue:
  assumes "exec_call w tenantId st tc = Continue st'"
  shows "\<exists>body. loopMessages st' = loopMessages st @ [ToolMsg (own tc ''id'') body] \<and>
           messages st' = messages st \<and> sent st' = sent st @ [call_request w tenantId tc]"
  using assms
  by (auto simp: exec_call_def Let_def split: fetched.splits option.splits if_splits)

lemma exec_calls_Continue:
  assumes "exec_calls w tenantId st tcs = Continue st'"
  shows "\<exists>bodies. length bodies = length tcs \<and>
           loopMessages st' = loopMessages st @ map2 (\<lambda>tc b. ToolMsg (own tc ''id'') b) tcs bodies \<and>
           messages st' = messages st"
  using assms
proof (induction tcs arbitrary: st)
  case Nil
  then show ?case by simp
next
  case (Cons tc tcs)
  from Cons.prems obtain st1 where
    s1: "exec_call w tenantId st tc = Continue st1" and
    s2: "exec_calls w tenantId st1 tcs = Continue st'"
    by (auto split: step.splits)
  from exec_call_Continue [OF s1] obtain body where
    b: "loopMessages st1 = loopMessages st @ [ToolMsg (own tc ''id'') body]" "messages st1 = messages st"
    by blast
  from Cons.IH [OF s2] obtain bodies where
    bs: "length bodies = length tcs"
      "loopMessages st' = loopMessages st1 @ map2 (\<lambda>tc b. ToolMsg (own tc ''id'') b) tcs bodies"
      "messages st' = messages st1"
    by blast
  show ?case
    by (rule exI [of _ "body # bodies"]) (simp add: b bs)
qed

lemma iteration_Continue:
  assumes "iteration w tenantId tools st = Continue st'"
  shows "\<exists>content toolCalls tc tcs bodies.
           iterable toolCalls = Some (tc # tcs) \<and> length bodies = Suc (length tcs) \<and>
           loopMessages st' =
             loopMessages st @ AssistantMsg content toolCalls #
               map2 (\<lambda>c b. ToolMsg (own c ''id'') b) (tc # tcs) bodies \<and>
           messages st' = loopMessages st'"
proof -
  from assms obtain out calls st3 where
    len: "truthy (own (reply_tool_calls out) ''length'')" and
    it: "iterable (reply_tool_calls out) = Some calls" and
    ex: "exec_calls w tenantId
           (st\<lparr>sent := sent st @ [PostChat (messages st) tools],
               loopMessages := loopMessages st @ [AssistantMsg (reply_content out) (reply_tool_calls out)]\<rparr>)
           calls = Continue st3" and
    st': "st' = st3\<lparr>messages := loopMessages st3\<rparr>"
    by (auto simp: iteration_def Let_def split: sum.splits if_splits option.splits step.splits)
  from len it obtain tc tcs where c: "calls = tc # tcs"
    by (cases "reply_tool_calls out"; cases calls) auto
  from exec_calls_Continue [OF ex] obtain bodies where
    bs: "length bodies = length calls"
      "loopMessages st3 = (loopMessages st @ [AssistantMsg (reply_content out) (reply_tool_calls out)]) @
         map2 (\<lambda>tc b. ToolMsg (own tc ''id'') b) calls bodies"
    by auto
  show ?thesis
    apply (rule exI [of _ "reply_content out"])
    apply (rule exI [of _ "reply_tool_calls out"])
    apply (rule exI [of _ tc])
    apply (rule exI [of _ tcs])
    apply (rule exI [of _ bodies])
    using it bs c st' by simp
qed

lemma tool_block_Nil:
  "tool_block [] ms = (case ms of ToolMsg i c # rest \<Rightarrow> False | _ \<Rightarrow> True)"
  by (cases ms; cases "hd ms") auto

lemma tool_block_Cons:
  "tool_block (tc # tcs) ms =
     (case ms of ToolMsg i c # rest \<Rightarrow> i = own tc ''id'' \<and> tool_block tcs rest | _ \<Rightarrow> False)"
  by (cases ms; cases "hd ms") auto

lemma tool_block_append:
  "tool_block calls ms \<Longrightarrow> tool_block [] extra \<Longrightarrow> tool_block calls (ms @ extra)"
proof (induction calls arbitrary: ms)
  case Nil
  then show ?case
    by (cases ms) (auto simp: tool_block_Nil split: list.splits message.splits)
next
  case (Cons tc tcs)
  then show ?case
    by (cases ms) (auto simp: tool_block_Cons split: list.splits message.splits)
qed

lemma alternates_append:
  "alternates xs \<Longrightarrow> alternates ys \<Longrightarrow> tool_block [] ys \<Longrightarrow> alternates (xs @ ys)"
proof (induction xs rule: alternates.induct)
  case (2 c tcs ms)
  then show ?case
    by (auto simp: tool_block_append split: option.splits list.splits)
qed auto

lemma alternates_tools:
  "length bodies = length calls \<Longrightarrow>
   alternates (map2 (\<lambda>c b. ToolMsg (own c ''id'') b) calls bodies)"
  by (induction bodies calls rule: list_induct2) auto

lemma tool_block_tools:
  "length bodies = length calls \<Longrightarrow>
   tool_block calls (map2 (\<lambda>c b. ToolMsg (own c ''id'') b) calls bodies)"
  by (induction bodies calls rule: list_induct2) auto

lemma alternates_iteration:
  assumes "iteration w tenantId tools st = Continue st'" and "alternates (loopMessages st)"
  shows "alternates (loopMessages st') \<and> messages st' = loopMessages st'"
proof -
  from iteration_Continue [OF assms(1)] obtain content toolCalls tc tcs bodies where
    it: "iterable toolCalls = Some (tc # tcs)" and
    len: "length bodies = length (tc # tcs)" and
    lm: "loopMessages st' = loopMessages st @ AssistantMsg content toolCalls #
           map2 (\<lambda>c b. ToolMsg (own c ''id'') b) (tc # tcs) bodies" and
    m: "messages st' = loopMessages st'"
    by auto
  have "alternates (AssistantMsg content toolCalls #
          map2 (\<lambda>c b. ToolMsg (own c ''id'') b) (tc # tcs) bodies)"
    using alternates_tools [OF len] tool_block_tools [OF len] it by simp
  with assms(2) have "alternates (loopMessages st')"
    unfolding lm by (intro alternates_append) simp_all
  with m show ?thesis by simp
qed

lemma alternates_passes:
  "passes w tenantId tools k st = Some st' \<Longrightarrow> alternates (loopMessages st) \<Longrightarrow>
   alternates (loopMessages st')"
proof (induction k arbitrary: st)
  case 0
  then show ?case by simp
next
  case (Suc k)
  then show ?case
    by (auto split: step.splits dest: alternates_iteration)
qed

lemma messages_passes:
  "passes w tenantId tools k st = Some st' \<Longrightarrow> messages st = loopMessages st \<Longrightarrow>
   messages st' = loopMessages st'"
proof (induction k arbitrary: st)
  case 0
  then show ?case by simp
next
  case (Suc k)
  then show ?case
    by (auto split: step.splits dest: iteration_Continue)
qed




lemma is_chat_call_request [simp]: "is_chat (call_request w tenantId tc) = False"
  by (simp add: call_request_def Let_def)

lemma exec_call_chats:
  "filter is_chat (sent (step_run (exec_call w tenantId st tc))) = filter is_chat (sent st)"
  by (simp add: exec_call_def Let_def split: fetched.splits option.splits)

lemma exec_calls_chats:
  "filter is_chat (sent (step_run (exec_calls w tenantId st tcs))) = filter is_chat (sent st)"
proof (induction tcs arbitrary: st)
  case Nil
  show ?case by simp
next
  case (Cons tc tcs)
  show ?case
  proof (cases "exec_call w tenantId st tc")
    case (Continue st1)
    with Cons.IH [of st1] exec_call_chats [of w tenantId st tc] show ?thesis by simp
  next
    case (Stop e)
    with exec_call_chats [of w tenantId st tc] show ?thesis by simp
  qed
qed

lemma iteration_chats:
  "length (filter is_chat (sent (step_run (iteration w tenantId tools st)))) =
     Suc (length (filter is_chat (sent st)))"
proof (cases "openaiCompatChat (net w (sent st @ [PostChat (messages st) tools]))")
  case (Inl e)
  then show ?thesis by (simp add: iteration_def)
next
  case (Inr out)
  show ?thesis
  proof (cases "truthy (own (reply_tool_calls out) ''length'')")
    case False
    with Inr show ?thesis by (simp add: iteration_def)
  next
    case True
    show ?thesis
    proof (cases "iterable (reply_tool_calls out)")
      case None
      with Inr True show ?thesis by (simp add: iteration_def)
    next
      case (Some tcs)
      let ?st2 = "st\<lparr>sent := sent st @ [PostChat (messages st) tools],
                   loopMessages := loopMessages st @
                     [AssistantMsg (reply_content out) (reply_tool_calls out)]\<rparr>"
      have "filter is_chat (sent (step_run (exec_calls w tenantId ?st2 tcs))) =
            filter is_chat (sent ?st2)"
        by (rule exec_calls_chats)
      with Inr True Some show ?thesis
        by (cases "exec_calls w tenantId ?st2 tcs") (simp_all add: iteration_def)
    qed
  qed
qed

lemma tool_loop_chats:
  "length (filter is_chat (sent (ending_run (tool_loop w tenantId tools n st)))) \<le>
     length (filter is_chat (sent st)) + n"
proof (induction n arbitrary: st)
  case 0
  show ?case by simp
next
  case (Suc n)
  show ?case
  proof (cases "iteration w tenantId tools st")
    case (Continue st1)
    with Suc.IH [of st1] iteration_chats [of w tenantId tools st] show ?thesis by simp
  next
    case (Stop e)
    with iteration_chats [of w tenantId tools st] show ?thesis by simp
  qed
qed

lemma agent_chat_chats:
  "length (filter is_chat (snd (agent_chat w provider apiKey base enableTools mcpUrl tenantId system text))) \<le> 6"
proof -
  have "length (filter is_chat (snd (ending_answer (tool_loop w tenantId tools 6
          \<lparr>messages = m, loopMessages = m, sent = [GetTools mcpUrl tenantId]\<rparr>)))) \<le> 6" for tools m
    using tool_loop_chats [of w tenantId tools 6 "\<lparr>messages = m, loopMessages = m, sent = [GetTools mcpUrl tenantId]\<rparr>"]
    by (cases "tool_loop w tenantId tools 6 \<lparr>messages = m, loopMessages = m, sent = [GetTools mcpUrl tenantId]\<rparr>")
       (simp_all add: ending_answer_def)
  then show ?thesis
    by (simp add: agent_chat_def Let_def split: sum.splits fetched.splits)
qed

lemma exec_calls_all_json:
  assumes json: "\<And>h n a t. \<exists>r body. net w (h @ [PostCall n a t]) = Resolved r \<and> parsed r = Some body"
      and "list_all (\<lambda>c. c \<noteq> JNull) tcs"
  shows "\<exists>st'. exec_calls w tenantId st tcs = Continue st'"
  using assms(2)
proof (induction tcs arbitrary: st)
  case Nil
  show ?case by simp
next
  case (Cons tc tcs)
  obtain n a t where req: "call_request w tenantId tc = PostCall n a t"
    by (simp add: call_request_def Let_def)
  from json [of "sent st" n a t] obtain r body where
    "net w (sent st @ [PostCall n a t]) = Resolved r" "parsed r = Some body"
    by blast
  with Cons.prems req obtain st1 where "exec_call w tenantId st tc = Continue st1"
    by (simp add: exec_call_def)
  with Cons.IH [of st1] Cons.prems show ?case by simp
qed

lemma iteration_all_calls:
  assumes chat: "\<And>h ms tl. \<exists>out. openaiCompatChat (net w (h @ [PostChat ms tl])) = Inr out \<and> has_tool_calls out"
      and json: "\<And>h n a t. \<exists>r body. net w (h @ [PostCall n a t]) = Resolved r \<and> parsed r = Some body"
  shows "\<exists>st'. iteration w tenantId tools st = Continue st'"
proof -
  from chat [of "sent st" "messages st" tools] obtain out where
    out: "openaiCompatChat (net w (sent st @ [PostChat (messages st) tools])) = Inr out" and
    calls: "has_tool_calls out"
    by blast
  from calls obtain tc tcs where
    arr: "reply_tool_calls out = JArr (tc # tcs)" and nn: "list_all (\<lambda>c. c \<noteq> JNull) (tc # tcs)"
    by (auto simp: has_tool_calls_def split: json.splits list.splits)
  let ?st2 = "st\<lparr>sent := sent st @ [PostChat (messages st) tools],
               loopMessages := loopMessages st @
                 [AssistantMsg (reply_content out) (reply_tool_calls out)]\<rparr>"
  from exec_calls_all_json [OF json nn, of tenantId ?st2] obtain st3 where
    "exec_calls w tenantId ?st2 (tc # tcs) = Continue st3"
    by blast
  with out arr show ?thesis
    by (simp add: iteration_def)
qed

lemma tool_loop_all_calls:
  assumes chat: "\<And>h ms tl. \<exists>out. openaiCompatChat (net w (h @ [PostChat ms tl])) = Inr out \<and> has_tool_calls out"
      and json: "\<And>h n a t. \<exists>r body. net w (h @ [PostCall n a t]) = Resolved r \<and> parsed r = Some body"
  shows "\<exists>st'. tool_loop w tenantId tools n st =
                  Replied (JStr ''Tool orchestration exceeded max iterations.'') st' \<and>
               length (filter is_chat (sent st')) = length (filter is_chat (sent st)) + n"
proof (induction n arbitrary: st)
  case 0
  show ?case by simp
next
  case (Suc n)
  from iteration_all_calls [OF chat json, of tenantId tools st] obtain st1 where
    it: "iteration w tenantId tools st = Continue st1"
    by blast
  from iteration_chats [of w tenantId tools st] it
  have "length (filter is_chat (sent st1)) = Suc (length (filter is_chat (sent st)))"
    by simp
  with Suc.IH [of st1] it show ?case by auto
qed


lemma exec_call_sent:
  "sent (step_run (exec_call w tenantId st tc)) = sent st @ [call_request w tenantId tc]"
  by (simp add: exec_call_def Let_def split: fetched.splits option.splits)

lemma exec_calls_sent: "\<exists>more. sent (step_run (exec_calls w tenantId st tcs)) = sent st @ more"
proof (induction tcs arbitrary: st)
  case Nil
  show ?case by simp
next
  case (Cons tc tcs)
  show ?case
  proof (cases "exec_call w tenantId st tc")
    case (Continue st1)
    with Cons.IH [of st1] exec_call_sent [of w tenantId st tc] show ?thesis by auto
  next
    case (Stop e)
    with exec_call_sent [of w tenantId st tc] show ?thesis by auto
  qed
qed

lemma iteration_sent:
  "\<exists>more. sent (step_run (iteration w tenantId tools st)) =
            sent st @ PostChat (messages st) tools # more"
proof (cases "openaiCompatChat (net w (sent st @ [PostChat (messages st) tools]))")
  case (Inl e)
  then show ?thesis by (simp add: iteration_def)
next
  case (Inr out)
  show ?thesis
  proof (cases "truthy (own (reply_tool_calls out) ''length'')")
    case False
    with Inr show ?thesis by (simp add: iteration_def)
  next
    case True
    show ?thesis
    proof (cases "iterable (reply_tool_calls out)")
      case None
      with Inr True show ?thesis by (simp add: iteration_def)
    next
      case (Some tcs)
      let ?st2 = "st\<lparr>sent := sent st @ [PostChat (messages st) tools],
                   loopMessages := loopMessages st @
                     [AssistantMsg (reply_content out) (reply_tool_calls out)]\<rparr>"
      from exec_calls_sent [of w tenantId ?st2 tcs] obtain more where
        "sent (step_run (exec_calls w tenantId ?st2 tcs)) = sent ?st2 @ more"
        by blast
      with Inr True Some show ?thesis
        by (cases "exec_calls w tenantId ?st2 tcs") (simp_all add: iteration_def)
    qed
  qed
qed

lemma tool_loop_sent: "\<exists>more. sent (ending_run (tool_loop w tenantId tools n st)) = sent st @ more"
proof (induction n arbitrary: st)
  case 0
  show ?case by simp
next
  case (Suc n)
  from iteration_sent [of w tenantId tools st] obtain m1 where
    m1: "sent (step_run (iteration w tenantId tools st)) = sent st @ PostChat (messages st) tools # m1"
    by blast
  show ?case
  proof (cases "iteration w tenantId tools st")
    case (Continue st1)
    with Suc.IH [of st1] m1 show ?thesis by auto
  next
    case (Stop e)
    with m1 show ?thesis by auto
  qed
qed

lemma tool_loop_requests:
  "\<exists>more. sent (ending_run (tool_loop w tenantId tools (Suc n) st)) =
            sent st @ PostChat (messages st) tools # more"
proof -
  from iteration_sent [of w tenantId tools st] obtain m1 where
    m1: "sent (step_run (iteration w tenantId tools st)) = sent st @ PostChat (messages st) tools # m1"
    by blast
  show ?thesis
  proof (cases "iteration w tenantId tools st")
    case (Continue st1)
    with tool_loop_sent [of w tenantId tools n st1] m1 show ?thesis by auto
  next
    case (Stop e)
    with m1 show ?thesis by auto
  qed
qed

lemma load_tools_none:
  "parsed r = None \<or> (\<forall>xs. oprop (parsed r) ''tools'' \<noteq> Some (JArr xs)) \<Longrightarrow> load_tools r = Inr []"
  by (auto simp: load_tools_def Let_def toOpenAITools_def array_or_empty_def oprop_def
      split: option.splits json.splits)

lemma digits_0: "digits 0 = ''0''"
  by (simp add: digits.simps digit_char_def)

lemma own_first: "own (JArr (x # xs)) ''0'' = Some x"
  by (simp add: upt_rec digits_0)

lemma iterable_length: "iterable v = Some (c # cs) \<Longrightarrow> truthy (own v ''length'')"
  by (cases v) auto

lemma tool_loop_6:
  "tool_loop w tenantId tools 6 st =
     (case iteration w tenantId tools st of
        Continue st' \<Rightarrow> tool_loop w tenantId tools 5 st'
      | Stop e \<Rightarrow> e)"
proof -
  have "tool_loop w tenantId tools 6 st = tool_loop w tenantId tools (Suc 5) st"
    by simp
  then show ?thesis
    by (simp only: tool_loop.simps)
qed

lemma net_world_of:
  "net (world_of a b c) (h @ [GetTools u t]) = a"
  "net (world_of a b c) (h @ [PostChat ms tools]) = b (h @ [PostChat ms tools])"
  "net (world_of a b c) (h @ [PostCall n x t]) = c"
  "net (world_of a b c) [GetTools u t] = a"
  "parse (world_of a b c) = parse_braces"
  by (simp_all add: world_of_def)

lemmas example_defs =
  world_of_def call_once_def json_response_def text_response_def
  calling_response_def final_response_def member_response_def bad_gateway_response_def
  refused_response_def parse_braces_def calling_reply_def final_reply_def listos_call_def
  start_def after_one_def asked_def refused_def initial_messages_def

lemmas reading_defs =
  reply_message_def reply_tool_calls_def reply_content_def oprop_def or_else_def
  has_tool_calls_def no_tool_calls_def digits_0

lemmas running_defs =
  iteration_def exec_call_def call_request_def openaiCompatChat_def ok_def Let_def
  agent_chat_def ending_answer_def js_String_def

lemma load_tools_example: "load_tools tools_response = Inr [listos_tool]"
  by (simp add: load_tools_def tools_response_def json_response_def listos_tool_def
      toOpenAITools_eq array_or_empty_def oprop_def named_def openai_ready_def function_tool_def
      descriptor_def descriptor_name_def descriptor_description_def descriptor_schema_def
      throws_def or_else_def schema_or_default_def)

text \<open>
  C4. After any number of passes of the loop that went round, every assistant message
  with a non-empty list of tool calls is followed at once by exactly one tool message
  per call, each with the id of its call, in the order of the calls; and the array sent
  to the provider next is that conversation.
\<close>

theorem conversation_alternates:
  assumes "passes w tenantId tools k
             \<lparr>messages = initial_messages system text,
              loopMessages = initial_messages system text, sent = reqs\<rparr> = Some st"
  shows "alternates (loopMessages st) \<and> messages st = loopMessages st"
proof -
  have "alternates (initial_messages system text)"
    by (simp add: initial_messages_def)
  with assms alternates_passes [OF assms] messages_passes [OF assms] show ?thesis
    by simp
qed


theorem conversation_alternates_witness:
  "passes (world_of (Resolved tools_response) call_once (Resolved member_response)) ''default''
     [listos_tool] 1 start = Some after_one \<and>
   alternates (loopMessages after_one) \<and> messages after_one = loopMessages after_one"
proof -
  have p: "passes (world_of (Resolved tools_response) call_once (Resolved member_response))
      ''default'' [listos_tool] 1
      \<lparr>messages = initial_messages ''You are a Maximo assistant.'' ''list the object structures'',
       loopMessages = initial_messages ''You are a Maximo assistant.'' ''list the object structures'',
       sent = [GetTools ''http://mcp-server:8081'' ''default'']\<rparr> = Some after_one"
    by (simp add: example_defs reading_defs running_defs)
  from conversation_alternates [OF p] p show ?thesis
    by (simp add: start_def)
qed

text \<open>
  C3, as the code has it. The route never sends more than 6 completion requests. When
  the tool list has been loaded, every completion request is answered by a reply with
  at least one tool call and every tool invocation is answered with a JSON body, it
  sends exactly 6 and answers with the fixed text, as an ordinary reply.
\<close>

theorem iteration_cap:
  "length (filter is_chat (snd (agent_chat w provider apiKey base enableTools mcpUrl tenantId system text))) \<le> 6 \<and>
   (apiKey \<noteq> [] \<and> base \<noteq> [] \<and> enableTools \<and> mcpUrl \<noteq> [] \<and>
    (\<exists>r tools. net w [GetTools mcpUrl tenantId] = Resolved r \<and> load_tools r = Inr tools) \<and>
    (\<forall>h ms tl. \<exists>out. openaiCompatChat (net w (h @ [PostChat ms tl])) = Inr out \<and> has_tool_calls out) \<and>
    (\<forall>h n a t. \<exists>r body. net w (h @ [PostCall n a t]) = Resolved r \<and> parsed r = Some body)
    \<longrightarrow>
    fst (agent_chat w provider apiKey base enableTools mcpUrl tenantId system text) =
      Reply (JStr ''Tool orchestration exceeded max iterations.'') \<and>
    length (filter is_chat (snd (agent_chat w provider apiKey base enableTools mcpUrl tenantId system text))) = 6)"
proof (rule conjI [OF agent_chat_chats], rule impI)
  assume a: "apiKey \<noteq> [] \<and> base \<noteq> [] \<and> enableTools \<and> mcpUrl \<noteq> [] \<and>
    (\<exists>r tools. net w [GetTools mcpUrl tenantId] = Resolved r \<and> load_tools r = Inr tools) \<and>
    (\<forall>h ms tl. \<exists>out. openaiCompatChat (net w (h @ [PostChat ms tl])) = Inr out \<and> has_tool_calls out) \<and>
    (\<forall>h n a t. \<exists>r body. net w (h @ [PostCall n a t]) = Resolved r \<and> parsed r = Some body)"
  then obtain r tools where r: "net w [GetTools mcpUrl tenantId] = Resolved r"
    and tools: "load_tools r = Inr tools" by blast
  let ?st = "\<lparr>messages = initial_messages system text, loopMessages = initial_messages system text,
              sent = [GetTools mcpUrl tenantId]\<rparr>"
  from a have chat: "\<And>h ms tl. \<exists>out. openaiCompatChat (net w (h @ [PostChat ms tl])) = Inr out \<and> has_tool_calls out"
    and json: "\<And>h n a t. \<exists>r body. net w (h @ [PostCall n a t]) = Resolved r \<and> parsed r = Some body"
    by blast+
  from tool_loop_all_calls [OF chat json, of tenantId tools 6 ?st] obtain st' where
    l: "tool_loop w tenantId tools 6 ?st =
          Replied (JStr ''Tool orchestration exceeded max iterations.'') st'"
       "length (filter is_chat (sent st')) = 6"
    by auto
  from a r tools l have "agent_chat w provider apiKey base enableTools mcpUrl tenantId system text =
      (Reply (JStr ''Tool orchestration exceeded max iterations.''), sent st')"
    by (simp add: agent_chat_def Let_def ending_answer_def)
  with l show "fst (agent_chat w provider apiKey base enableTools mcpUrl tenantId system text) =
      Reply (JStr ''Tool orchestration exceeded max iterations.'') \<and>
    length (filter is_chat (snd (agent_chat w provider apiKey base enableTools mcpUrl tenantId system text))) = 6"
    by simp
qed


theorem iteration_cap_witness:
  "fst (agent_chat (world_of (Resolved tools_response) (\<lambda>h. Resolved calling_response)
          (Resolved member_response))
        ''openai'' ''sk-1'' ''https://api.openai.com'' True ''http://mcp-server:8081'' ''default''
        ''You are a Maximo assistant.'' ''list the object structures'') =
     Reply (JStr ''Tool orchestration exceeded max iterations.'') \<and>
   length (filter is_chat (snd (agent_chat (world_of (Resolved tools_response)
          (\<lambda>h. Resolved calling_response) (Resolved member_response))
        ''openai'' ''sk-1'' ''https://api.openai.com'' True ''http://mcp-server:8081'' ''default''
        ''You are a Maximo assistant.'' ''list the object structures''))) = 6"
proof -
  let ?w = "world_of (Resolved tools_response) (\<lambda>h. Resolved calling_response)
              (Resolved member_response)"
  have tools: "\<exists>r tools. net ?w [GetTools ''http://mcp-server:8081'' ''default''] = Resolved r \<and>
      load_tools r = Inr tools"
    by (simp add: world_of_def load_tools_example)
  have chat: "\<forall>h ms tl. \<exists>out. openaiCompatChat (net ?w (h @ [PostChat ms tl])) = Inr out \<and>
      has_tool_calls out"
    by (simp add: example_defs reading_defs openaiCompatChat_def ok_def)
  have json: "\<forall>h n a t. \<exists>r body. net ?w (h @ [PostCall n a t]) = Resolved r \<and> parsed r = Some body"
    by (simp add: example_defs)
  from tools chat json
    iteration_cap [of ?w "''openai''" "''sk-1''" "''https://api.openai.com''" True
      "''http://mcp-server:8081''" "''default''" "''You are a Maximo assistant.''"
      "''list the object structures''"]
  show ?thesis by simp
qed

text \<open>
  C3 as stated fails. The provider asks for a tool in every reply, and the registry
  answers the invocation with a page that is not JSON: the run ends after one completion
  request, with the error of the route and not with the fixed text.
\<close>

theorem iteration_cap_counterexample:
  "has_tool_calls calling_reply \<and>
   agent_chat (world_of (Resolved tools_response) (\<lambda>h. Resolved calling_response)
       (Resolved bad_gateway_response))
     ''openai'' ''sk-1'' ''https://api.openai.com'' True ''http://mcp-server:8081'' ''default''
     ''You are a Maximo assistant.'' ''list the object structures'' =
     (AgentFailed InvalidJson,
      [GetTools ''http://mcp-server:8081'' ''default'',
       PostChat (initial_messages ''You are a Maximo assistant.'' ''list the object structures'')
         [listos_tool],
       PostCall (Some (JStr ''maximo.listOS'')) (JObj []) ''default''])"
  by (simp add: example_defs reading_defs running_defs load_tools_example tool_loop_6)

text \<open>
  C7. A reply with no tool calls (\<^verbatim>\<open>tool_calls\<close> absent, null or an empty array, so
  that \<^verbatim>\<open>!toolCalls.length\<close> holds) ends the loop on the pass that receives it: the
  answer is the content of the reply's message as it stands (the empty string when
  there is none), and the last request sent is that completion request. On the first
  pass, the tool list loaded, the route has then sent the tool list request and one
  completion request.
\<close>

theorem terminal_reply:
  "(\<not> truthy (oprop (Some (reply_message out)) ''tool_calls'') \<or>
      oprop (Some (reply_message out)) ''tool_calls'' = Some (JArr [])
    \<longrightarrow> no_tool_calls out) \<and>
   (oprop (Some (reply_message out)) ''content'' = Some (JStr s) \<longrightarrow> reply_content out = JStr s) \<and>
   (openaiCompatChat (net w (sent st @ [PostChat (messages st) tools])) = Inr out \<and>
    no_tool_calls out
    \<longrightarrow>
      iteration w tenantId tools st =
        Stop (Replied (reply_content out) (st\<lparr>sent := sent st @ [PostChat (messages st) tools]\<rparr>)) \<and>
      tool_loop w tenantId tools (Suc n) st =
        Replied (reply_content out) (st\<lparr>sent := sent st @ [PostChat (messages st) tools]\<rparr>)) \<and>
   (apiKey \<noteq> [] \<and> base \<noteq> [] \<and> enableTools \<and> mcpUrl \<noteq> [] \<and>
    net w [GetTools mcpUrl tenantId] = Resolved r \<and> load_tools r = Inr loaded \<and>
    openaiCompatChat
      (net w [GetTools mcpUrl tenantId, PostChat (initial_messages system text) loaded]) =
      Inr out \<and>
    no_tool_calls out
    \<longrightarrow>
      agent_chat w provider apiKey base enableTools mcpUrl tenantId system text =
        (Reply (reply_content out),
         [GetTools mcpUrl tenantId, PostChat (initial_messages system text) loaded]))"
proof (intro conjI impI)
  assume "\<not> truthy (oprop (Some (reply_message out)) ''tool_calls'') \<or>
      oprop (Some (reply_message out)) ''tool_calls'' = Some (JArr [])"
  then show "no_tool_calls out"
    by (auto simp: no_tool_calls_def reply_tool_calls_def or_else_def split: option.splits)
next
  assume "oprop (Some (reply_message out)) ''content'' = Some (JStr s)"
  then show "reply_content out = JStr s"
    by (simp add: reply_content_def or_else_def)
next
  assume a: "openaiCompatChat (net w (sent st @ [PostChat (messages st) tools])) = Inr out \<and>
    no_tool_calls out"
  then show it: "iteration w tenantId tools st =
      Stop (Replied (reply_content out) (st\<lparr>sent := sent st @ [PostChat (messages st) tools]\<rparr>))"
    by (simp add: iteration_def no_tool_calls_def)
  then show "tool_loop w tenantId tools (Suc n) st =
      Replied (reply_content out) (st\<lparr>sent := sent st @ [PostChat (messages st) tools]\<rparr>)"
    by simp
next
  assume a: "apiKey \<noteq> [] \<and> base \<noteq> [] \<and> enableTools \<and> mcpUrl \<noteq> [] \<and>
    net w [GetTools mcpUrl tenantId] = Resolved r \<and> load_tools r = Inr loaded \<and>
    openaiCompatChat
      (net w [GetTools mcpUrl tenantId, PostChat (initial_messages system text) loaded]) =
      Inr out \<and>
    no_tool_calls out"
  then show "agent_chat w provider apiKey base enableTools mcpUrl tenantId system text =
      (Reply (reply_content out),
       [GetTools mcpUrl tenantId, PostChat (initial_messages system text) loaded])"
    by (simp add: agent_chat_def Let_def ending_answer_def tool_loop_6 iteration_def
        no_tool_calls_def)
qed

theorem terminal_reply_witness:
  "no_tool_calls final_reply \<and>
   reply_content final_reply = JStr ''done'' \<and>
   agent_chat (world_of (Resolved tools_response) (\<lambda>h. Resolved final_response)
       (Resolved member_response))
     ''openai'' ''sk-1'' ''https://api.openai.com'' True ''http://mcp-server:8081'' ''default''
     ''You are a Maximo assistant.'' ''list the object structures'' =
     (Reply (JStr ''done''),
      [GetTools ''http://mcp-server:8081'' ''default'',
       PostChat (initial_messages ''You are a Maximo assistant.'' ''list the object structures'')
         [listos_tool]])"
proof -
  let ?w = "world_of (Resolved tools_response) (\<lambda>h. Resolved final_response)
              (Resolved member_response)"
  have absent: "\<not> truthy (oprop (Some (reply_message final_reply)) ''tool_calls'')"
    by (simp add: final_reply_def reply_message_def oprop_def or_else_def digits_0)
  have content: "oprop (Some (reply_message final_reply)) ''content'' = Some (JStr ''done'')"
    by (simp add: final_reply_def reply_message_def oprop_def or_else_def digits_0)
  have tools: "net ?w [GetTools ''http://mcp-server:8081'' ''default''] = Resolved tools_response"
    by (simp add: world_of_def)
  note loaded = load_tools_example
  have chat: "openaiCompatChat
      (net ?w [GetTools ''http://mcp-server:8081'' ''default'',
               PostChat (initial_messages ''You are a Maximo assistant.''
                  ''list the object structures'') [listos_tool]]) = Inr final_reply"
    by (simp add: world_of_def final_response_def json_response_def openaiCompatChat_def ok_def)
  note t = terminal_reply [of final_reply "''done''" ?w start "[listos_tool]" "''default''" 5
      "''sk-1''" "''https://api.openai.com''" True "''http://mcp-server:8081''" tools_response
      "[listos_tool]" "''You are a Maximo assistant.''" "''list the object structures''"
      "''openai''"]
  from t absent have n: "no_tool_calls final_reply" by blast
  from t content have c: "reply_content final_reply = JStr ''done''" by blast
  from t tools loaded chat n have "agent_chat ?w ''openai'' ''sk-1'' ''https://api.openai.com'' True
      ''http://mcp-server:8081'' ''default'' ''You are a Maximo assistant.''
      ''list the object structures'' =
     (Reply (reply_content final_reply),
      [GetTools ''http://mcp-server:8081'' ''default'',
       PostChat (initial_messages ''You are a Maximo assistant.'' ''list the object structures'')
         [listos_tool]])"
    by simp
  with n c show ?thesis
    by simp
qed

text \<open>
  C1, as the code has it. A tool invocation that the registry answers with a JSON body,
  whatever the status, gives a tool message with the id of the call and that body,
  unless the call is null; the loop goes on with the next call. After the last call of
  a pass it requests another completion when a pass is left, and after the last call of
  the last pass it returns the fixed text and requests nothing. An invocation that
  fails on the network, or whose answer is not JSON, or whose call is null, so that
  \<^verbatim>\<open>tc.id\<close> throws once the answer is read, ends the run: the calls after it are not
  made, no further completion is requested, and the route answers with its own error
  \<^verbatim>\<open>agent_failed\<close>.
\<close>

theorem tool_invocation_outcome:
  "(net w (sent st @ [call_request w tenantId tc]) = Resolved r \<and> parsed r = Some body \<and>
    tc \<noteq> JNull
    \<longrightarrow> exec_call w tenantId st tc =
          Continue (st\<lparr>sent := sent st @ [call_request w tenantId tc],
                       loopMessages := loopMessages st @ [ToolMsg (own tc ''id'') body]\<rparr>)) \<and>
   (net w (sent st @ [call_request w tenantId tc]) = Rejected e
    \<longrightarrow> exec_call w tenantId st tc =
          Stop (Failed (FetchError e) (st\<lparr>sent := sent st @ [call_request w tenantId tc]\<rparr>))) \<and>
   (net w (sent st @ [call_request w tenantId tc]) = Resolved r \<and> parsed r = None
    \<longrightarrow> exec_call w tenantId st tc =
          Stop (Failed InvalidJson (st\<lparr>sent := sent st @ [call_request w tenantId tc]\<rparr>))) \<and>
   (exec_call w tenantId st tc = Continue st1
    \<longrightarrow> exec_calls w tenantId st (tc # tcs) = exec_calls w tenantId st1 tcs) \<and>
   (exec_call w tenantId st tc = Stop fin
    \<longrightarrow> exec_calls w tenantId st (tc # tcs) = Stop fin) \<and>
   (openaiCompatChat (net w (sent st0 @ [PostChat (messages st0) tools])) = Inr out \<and>
    iterable (reply_tool_calls out) = Some (c # cs) \<and>
    exec_calls w tenantId
      (st0\<lparr>sent := sent st0 @ [PostChat (messages st0) tools],
           loopMessages := loopMessages st0 @ [AssistantMsg (reply_content out) (reply_tool_calls out)]\<rparr>)
      (c # cs) = Continue st3
    \<longrightarrow> tool_loop w tenantId tools (Suc (Suc n)) st0 =
          tool_loop w tenantId tools (Suc n) (st3\<lparr>messages := loopMessages st3\<rparr>) \<and>
        (\<exists>more. sent (ending_run (tool_loop w tenantId tools (Suc (Suc n)) st0)) =
                  sent st3 @ PostChat (loopMessages st3) tools # more)) \<and>
   (openaiCompatChat (net w (sent st0 @ [PostChat (messages st0) tools])) = Inr out \<and>
    iterable (reply_tool_calls out) = Some (c # cs) \<and>
    exec_calls w tenantId
      (st0\<lparr>sent := sent st0 @ [PostChat (messages st0) tools],
           loopMessages := loopMessages st0 @ [AssistantMsg (reply_content out) (reply_tool_calls out)]\<rparr>)
      (c # cs) = Stop (Failed err st4)
    \<longrightarrow> tool_loop w tenantId tools (Suc n) st0 = Failed err st4 \<and>
        ending_answer (tool_loop w tenantId tools (Suc n) st0) = (AgentFailed err, sent st4)) \<and>
   (net w (sent st @ [call_request w tenantId tc]) = Resolved r \<and> parsed r = Some body \<and>
    tc = JNull
    \<longrightarrow> exec_call w tenantId st tc =
          Stop (Failed TypeError (st\<lparr>sent := sent st @ [call_request w tenantId tc]\<rparr>))) \<and>
   (openaiCompatChat (net w (sent st0 @ [PostChat (messages st0) tools])) = Inr out \<and>
    iterable (reply_tool_calls out) = Some (c # cs) \<and>
    exec_calls w tenantId
      (st0\<lparr>sent := sent st0 @ [PostChat (messages st0) tools],
           loopMessages := loopMessages st0 @ [AssistantMsg (reply_content out) (reply_tool_calls out)]\<rparr>)
      (c # cs) = Continue st3
    \<longrightarrow> tool_loop w tenantId tools (Suc 0) st0 =
          Replied (JStr ''Tool orchestration exceeded max iterations.'')
            (st3\<lparr>messages := loopMessages st3\<rparr>) \<and>
        ending_answer (tool_loop w tenantId tools (Suc 0) st0) =
          (Reply (JStr ''Tool orchestration exceeded max iterations.''), sent st3))"
proof (intro conjI impI)
  assume "net w (sent st @ [call_request w tenantId tc]) = Resolved r \<and> parsed r = Some body \<and>
    tc \<noteq> JNull"
  then show "exec_call w tenantId st tc =
      Continue (st\<lparr>sent := sent st @ [call_request w tenantId tc],
                   loopMessages := loopMessages st @ [ToolMsg (own tc ''id'') body]\<rparr>)"
    by (simp add: exec_call_def)
next
  assume "net w (sent st @ [call_request w tenantId tc]) = Rejected e"
  then show "exec_call w tenantId st tc =
      Stop (Failed (FetchError e) (st\<lparr>sent := sent st @ [call_request w tenantId tc]\<rparr>))"
    by (simp add: exec_call_def)
next
  assume "net w (sent st @ [call_request w tenantId tc]) = Resolved r \<and> parsed r = None"
  then show "exec_call w tenantId st tc =
      Stop (Failed InvalidJson (st\<lparr>sent := sent st @ [call_request w tenantId tc]\<rparr>))"
    by (simp add: exec_call_def)
next
  assume "exec_call w tenantId st tc = Continue st1"
  then show "exec_calls w tenantId st (tc # tcs) = exec_calls w tenantId st1 tcs"
    by simp
next
  assume "exec_call w tenantId st tc = Stop fin"
  then show "exec_calls w tenantId st (tc # tcs) = Stop fin"
    by simp
next
  assume a: "openaiCompatChat (net w (sent st0 @ [PostChat (messages st0) tools])) = Inr out \<and>
    iterable (reply_tool_calls out) = Some (c # cs) \<and>
    exec_calls w tenantId
      (st0\<lparr>sent := sent st0 @ [PostChat (messages st0) tools],
           loopMessages := loopMessages st0 @ [AssistantMsg (reply_content out) (reply_tool_calls out)]\<rparr>)
      (c # cs) = Continue st3"
  then have it: "iteration w tenantId tools st0 = Continue (st3\<lparr>messages := loopMessages st3\<rparr>)"
    using iterable_length [of "reply_tool_calls out" c cs] by (simp add: iteration_def)
  then show l: "tool_loop w tenantId tools (Suc (Suc n)) st0 =
      tool_loop w tenantId tools (Suc n) (st3\<lparr>messages := loopMessages st3\<rparr>)"
    by simp
  from tool_loop_requests [of w tenantId tools n "st3\<lparr>messages := loopMessages st3\<rparr>"]
  show "\<exists>more. sent (ending_run (tool_loop w tenantId tools (Suc (Suc n)) st0)) =
                sent st3 @ PostChat (loopMessages st3) tools # more"
    unfolding l by simp
next
  assume a: "openaiCompatChat (net w (sent st0 @ [PostChat (messages st0) tools])) = Inr out \<and>
    iterable (reply_tool_calls out) = Some (c # cs) \<and>
    exec_calls w tenantId
      (st0\<lparr>sent := sent st0 @ [PostChat (messages st0) tools],
           loopMessages := loopMessages st0 @ [AssistantMsg (reply_content out) (reply_tool_calls out)]\<rparr>)
      (c # cs) = Stop (Failed err st4)"
  then have it: "iteration w tenantId tools st0 = Stop (Failed err st4)"
    using iterable_length [of "reply_tool_calls out" c cs] by (simp add: iteration_def)
  then show l: "tool_loop w tenantId tools (Suc n) st0 = Failed err st4"
    by simp
  then show "ending_answer (tool_loop w tenantId tools (Suc n) st0) = (AgentFailed err, sent st4)"
    by (simp add: ending_answer_def)
next
  assume "net w (sent st @ [call_request w tenantId tc]) = Resolved r \<and> parsed r = Some body \<and>
    tc = JNull"
  then show "exec_call w tenantId st tc =
      Stop (Failed TypeError (st\<lparr>sent := sent st @ [call_request w tenantId tc]\<rparr>))"
    by (clarsimp simp: exec_call_def)
next
  assume a: "openaiCompatChat (net w (sent st0 @ [PostChat (messages st0) tools])) = Inr out \<and>
    iterable (reply_tool_calls out) = Some (c # cs) \<and>
    exec_calls w tenantId
      (st0\<lparr>sent := sent st0 @ [PostChat (messages st0) tools],
           loopMessages := loopMessages st0 @ [AssistantMsg (reply_content out) (reply_tool_calls out)]\<rparr>)
      (c # cs) = Continue st3"
  then have it: "iteration w tenantId tools st0 = Continue (st3\<lparr>messages := loopMessages st3\<rparr>)"
    using iterable_length [of "reply_tool_calls out" c cs] by (simp add: iteration_def)
  then show l: "tool_loop w tenantId tools (Suc 0) st0 =
      Replied (JStr ''Tool orchestration exceeded max iterations.'')
        (st3\<lparr>messages := loopMessages st3\<rparr>)"
    by simp
  then show "ending_answer (tool_loop w tenantId tools (Suc 0) st0) =
      (Reply (JStr ''Tool orchestration exceeded max iterations.''), sent st3)"
    by (simp add: ending_answer_def)
qed

theorem tool_invocation_outcome_witness:
  "exec_call (world_of (Resolved tools_response) call_once (Resolved refused_response))
     ''default'' asked listos_call = Continue refused \<and>
   exec_call (world_of (Resolved tools_response) call_once (Rejected ''connect ECONNREFUSED''))
     ''default'' asked listos_call =
     Stop (Failed (FetchError ''connect ECONNREFUSED'')
       (asked\<lparr>sent := sent asked @ [PostCall (Some (JStr ''maximo.listOS'')) (JObj []) ''default'']\<rparr>)) \<and>
   exec_call (world_of (Resolved tools_response) call_once (Resolved bad_gateway_response))
     ''default'' asked listos_call =
     Stop (Failed InvalidJson
       (asked\<lparr>sent := sent asked @ [PostCall (Some (JStr ''maximo.listOS'')) (JObj []) ''default'']\<rparr>)) \<and>
   tool_loop (world_of (Resolved tools_response) call_once (Resolved refused_response))
     ''default'' [listos_tool] (Suc (Suc 0)) start =
   tool_loop (world_of (Resolved tools_response) call_once (Resolved refused_response))
     ''default'' [listos_tool] (Suc 0) (refused\<lparr>messages := loopMessages refused\<rparr>) \<and>
   ending_answer
     (tool_loop (world_of (Resolved tools_response) call_once (Rejected ''connect ECONNREFUSED''))
        ''default'' [listos_tool] (Suc 0) start) =
     (AgentFailed (FetchError ''connect ECONNREFUSED''),
      sent asked @ [PostCall (Some (JStr ''maximo.listOS'')) (JObj []) ''default'']) \<and>
   exec_call (world_of (Resolved tools_response) call_once (Resolved refused_response))
     ''default'' asked JNull =
     Stop (Failed TypeError (asked\<lparr>sent := sent asked @ [PostCall None (JObj []) ''default'']\<rparr>)) \<and>
   ending_answer
     (tool_loop (world_of (Resolved tools_response) call_once (Resolved refused_response))
        ''default'' [listos_tool] (Suc 0) start) =
     (Reply (JStr ''Tool orchestration exceeded max iterations.''), sent refused)"
proof -
  let ?ok = "world_of (Resolved tools_response) call_once (Resolved refused_response)"
  let ?down = "world_of (Resolved tools_response) call_once (Rejected ''connect ECONNREFUSED'')"
  let ?page = "world_of (Resolved tools_response) call_once (Resolved bad_gateway_response)"
  let ?req = "PostCall (Some (JStr ''maximo.listOS'')) (JObj []) ''default''"
  let ?body = "JObj [(''error'', JStr ''Error: Tenant is not configured: default'')]"
  let ?st4 = "asked\<lparr>sent := sent asked @ [?req]\<rparr>"
  have req: "call_request (world_of a b c) ''default'' listos_call = ?req" for a b c
    by (simp add: call_request_def listos_call_def oprop_def or_else_def parse_braces_def
        net_world_of js_String_def)
  have sent_start: "sent start @ [PostChat (messages start) [listos_tool]] = sent asked"
    by (simp add: start_def asked_def initial_messages_def)
  have sent_asked: "sent asked = [GetTools ''http://mcp-server:8081'' ''default''] @
      [PostChat [SystemMsg ''You are a Maximo assistant.'', UserMsg ''list the object structures'']
         [listos_tool]]"
    by (simp add: asked_def)
  have id: "own listos_call ''id'' = Some (JStr ''call_1'')" "listos_call \<noteq> JNull"
    by (simp_all add: listos_call_def)
  have st3: "asked\<lparr>sent := sent asked @ [?req],
      loopMessages := loopMessages asked @ [ToolMsg (Some (JStr ''call_1'')) ?body]\<rparr> = refused"
    by (simp add: asked_def refused_def)
  have first: "openaiCompatChat
        (net (world_of (Resolved tools_response) call_once c)
           (sent start @ [PostChat (messages start) [listos_tool]])) = Inr calling_reply" for c
    unfolding sent_start unfolding sent_asked
    by (simp add: net_world_of call_once_def calling_response_def json_response_def
        openaiCompatChat_def ok_def del: append.simps)
  have calls: "reply_tool_calls calling_reply = JArr [listos_call]"
    by (simp add: calling_reply_def reading_defs)
  then have its: "iterable (reply_tool_calls calling_reply) = Some [listos_call]"
    by simp
  have st2: "start\<lparr>sent := sent start @ [PostChat (messages start) [listos_tool]],
      loopMessages := loopMessages start @
        [AssistantMsg (reply_content calling_reply) (reply_tool_calls calling_reply)]\<rparr> = asked"
    by (simp add: start_def asked_def initial_messages_def calling_reply_def reading_defs)
  note t1 = tool_invocation_outcome [where w = ?ok and st = asked and tenantId = "''default''"
      and tc = listos_call and r = refused_response and body = ?body and tcs = "[]"
      and ?st1.0 = refused and ?st0.0 = start and tools = "[listos_tool]" and out = calling_reply
      and c = listos_call and cs = "[]" and ?st3.0 = refused and n = 0]
  note t2 = tool_invocation_outcome [where w = ?down and st = asked and tenantId = "''default''"
      and tc = listos_call and e = "''connect ECONNREFUSED''" and tcs = "[]"
      and fin = "Failed (FetchError ''connect ECONNREFUSED'') ?st4"
      and ?st0.0 = start and tools = "[listos_tool]" and out = calling_reply
      and c = listos_call and cs = "[]" and n = 0
      and err = "FetchError ''connect ECONNREFUSED''" and ?st4.0 = ?st4]
  note t3 = tool_invocation_outcome [where w = ?page and st = asked and tenantId = "''default''"
      and tc = listos_call and r = bad_gateway_response]
  have "net ?ok (sent asked @ [call_request ?ok ''default'' listos_call]) = Resolved refused_response \<and>
      parsed refused_response = Some ?body \<and> listos_call \<noteq> JNull"
    by (simp add: req id net_world_of refused_response_def json_response_def)
  from t1 [THEN conjunct1, THEN mp, OF this]
  have c1: "exec_call ?ok ''default'' asked listos_call = Continue refused"
    by (simp add: req id st3)
  have "net ?down (sent asked @ [call_request ?down ''default'' listos_call]) =
      Rejected ''connect ECONNREFUSED''"
    by (simp add: req net_world_of)
  from t2 [THEN conjunct2, THEN conjunct1, THEN mp, OF this]
  have c2: "exec_call ?down ''default'' asked listos_call =
      Stop (Failed (FetchError ''connect ECONNREFUSED'') ?st4)"
    by (simp add: req)
  have "net ?page (sent asked @ [call_request ?page ''default'' listos_call]) =
        Resolved bad_gateway_response \<and> parsed bad_gateway_response = None"
    by (simp add: req net_world_of bad_gateway_response_def text_response_def)
  from t3 [THEN conjunct2, THEN conjunct2, THEN conjunct1, THEN mp, OF this]
  have c3: "exec_call ?page ''default'' asked listos_call = Stop (Failed InvalidJson ?st4)"
    by (simp add: req)
  from t1 [THEN conjunct2, THEN conjunct2, THEN conjunct2, THEN conjunct1, THEN mp, OF c1]
  have e1: "exec_calls ?ok ''default'' asked [listos_call] = Continue refused"
    by simp
  from t2 [THEN conjunct2, THEN conjunct2, THEN conjunct2, THEN conjunct2, THEN conjunct1,
      THEN mp, OF c2]
  have e2: "exec_calls ?down ''default'' asked [listos_call] =
      Stop (Failed (FetchError ''connect ECONNREFUSED'') ?st4)"
    by simp
  have round: "openaiCompatChat (net ?ok (sent start @ [PostChat (messages start) [listos_tool]])) =
        Inr calling_reply \<and>
      iterable (reply_tool_calls calling_reply) = Some [listos_call] \<and>
      exec_calls ?ok ''default''
        (start\<lparr>sent := sent start @ [PostChat (messages start) [listos_tool]],
           loopMessages := loopMessages start @
             [AssistantMsg (reply_content calling_reply) (reply_tool_calls calling_reply)]\<rparr>)
        [listos_call] = Continue refused"
    by (simp only: first its st2 e1)
  from t1 [THEN conjunct2, THEN conjunct2, THEN conjunct2, THEN conjunct2, THEN conjunct2,
      THEN conjunct2, THEN conjunct2, THEN conjunct2, THEN mp, OF round]
  have c9: "ending_answer (tool_loop ?ok ''default'' [listos_tool] (Suc 0) start) =
      (Reply (JStr ''Tool orchestration exceeded max iterations.''), sent refused)"
    by (rule conjunct2)
  let ?null = "PostCall None (JObj []) ''default''"
  have null_req: "call_request (world_of a b c) ''default'' JNull = ?null" for a b c
    by (simp add: call_request_def oprop_def or_else_def parse_braces_def net_world_of
        js_String_def)
  note t4 = tool_invocation_outcome [where w = ?ok and st = asked and tenantId = "''default''"
      and tc = JNull and r = refused_response and body = ?body]
  have "net ?ok (sent asked @ [call_request ?ok ''default'' JNull]) = Resolved refused_response \<and>
      parsed refused_response = Some ?body \<and> JNull = JNull"
    by (simp add: null_req net_world_of refused_response_def json_response_def)
  from t4 [THEN conjunct2, THEN conjunct2, THEN conjunct2, THEN conjunct2, THEN conjunct2,
      THEN conjunct2, THEN conjunct2, THEN conjunct1, THEN mp, OF this]
  have c8: "exec_call ?ok ''default'' asked JNull =
      Stop (Failed TypeError (asked\<lparr>sent := sent asked @ [?null]\<rparr>))"
    by (simp add: null_req)
  from t1 [THEN conjunct2, THEN conjunct2, THEN conjunct2, THEN conjunct2, THEN conjunct2,
      THEN conjunct1, THEN mp, OF round]
  have c6: "tool_loop ?ok ''default'' [listos_tool] (Suc (Suc 0)) start =
      tool_loop ?ok ''default'' [listos_tool] (Suc 0) (refused\<lparr>messages := loopMessages refused\<rparr>)"
    by (rule conjunct1)
  have "openaiCompatChat (net ?down (sent start @ [PostChat (messages start) [listos_tool]])) =
        Inr calling_reply \<and>
      iterable (reply_tool_calls calling_reply) = Some [listos_call] \<and>
      exec_calls ?down ''default''
        (start\<lparr>sent := sent start @ [PostChat (messages start) [listos_tool]],
           loopMessages := loopMessages start @
             [AssistantMsg (reply_content calling_reply) (reply_tool_calls calling_reply)]\<rparr>)
        [listos_call] = Stop (Failed (FetchError ''connect ECONNREFUSED'') ?st4)"
    by (simp only: first its st2 e2)
  from t2 [THEN conjunct2, THEN conjunct2, THEN conjunct2, THEN conjunct2, THEN conjunct2,
      THEN conjunct2, THEN conjunct1, THEN mp, OF this]
  have "ending_answer (tool_loop ?down ''default'' [listos_tool] (Suc 0) start) =
      (AgentFailed (FetchError ''connect ECONNREFUSED''), sent ?st4)"
    by (rule conjunct2)
  then have c7: "ending_answer (tool_loop ?down ''default'' [listos_tool] (Suc 0) start) =
      (AgentFailed (FetchError ''connect ECONNREFUSED''), sent asked @ [?req])"
    by (simp del: tool_loop.simps)
  from c1 c2 c3 c6 c7 c8 c9 show ?thesis
    by (intro conjI)
qed

text \<open>
  C1 as stated fails. The registry is down when the tool is invoked: no tool message is
  added, no further completion is requested, and the route answers \<^verbatim>\<open>agent_failed\<close>.
\<close>

theorem tool_invocation_outcome_counterexample:
  "agent_chat (world_of (Resolved tools_response) call_once (Rejected ''connect ECONNREFUSED''))
     ''openai'' ''sk-1'' ''https://api.openai.com'' True ''http://mcp-server:8081'' ''default''
     ''You are a Maximo assistant.'' ''list the object structures'' =
     (AgentFailed (FetchError ''connect ECONNREFUSED''),
      [GetTools ''http://mcp-server:8081'' ''default'',
       PostChat (initial_messages ''You are a Maximo assistant.'' ''list the object structures'')
         [listos_tool],
       PostCall (Some (JStr ''maximo.listOS'')) (JObj []) ''default''])"
  by (simp add: example_defs reading_defs running_defs load_tools_example tool_loop_6)

text \<open>
  C2, as the code has it. With tools enabled, an answer to the tool list request whose
  body is not JSON, or has no \<^verbatim>\<open>tools\<close> array, leaves the tool list empty and the loop
  runs, its first completion request carrying no tools. A failure of that request on the
  network ends the route with its error \<^verbatim>\<open>agent_failed\<close> before any completion is
  requested, and so does a tool list on which the adapter throws.
\<close>

theorem tool_list_fetch:
  "apiKey \<noteq> [] \<and> base \<noteq> [] \<and> enableTools \<and> mcpUrl \<noteq> [] \<longrightarrow>
     (net w [GetTools mcpUrl tenantId] = Resolved r \<and>
      (parsed r = None \<or> (\<forall>xs. oprop (parsed r) ''tools'' \<noteq> Some (JArr xs)))
      \<longrightarrow>
        load_tools r = Inr [] \<and>
        agent_chat w provider apiKey base enableTools mcpUrl tenantId system text =
          ending_answer
            (tool_loop w tenantId [] 6
               \<lparr>messages = initial_messages system text,
                loopMessages = initial_messages system text,
                sent = [GetTools mcpUrl tenantId]\<rparr>) \<and>
        (\<exists>more. snd (agent_chat w provider apiKey base enableTools mcpUrl tenantId system text) =
                  GetTools mcpUrl tenantId # PostChat (initial_messages system text) [] # more)) \<and>
     (net w [GetTools mcpUrl tenantId] = Rejected e
      \<longrightarrow>
        agent_chat w provider apiKey base enableTools mcpUrl tenantId system text =
          (AgentFailed (FetchError e), [GetTools mcpUrl tenantId])) \<and>
     (net w [GetTools mcpUrl tenantId] = Resolved r \<and> load_tools r = Inl err
      \<longrightarrow>
        agent_chat w provider apiKey base enableTools mcpUrl tenantId system text =
          (AgentFailed err, [GetTools mcpUrl tenantId]))"
proof (intro impI conjI)
  assume c: "apiKey \<noteq> [] \<and> base \<noteq> [] \<and> enableTools \<and> mcpUrl \<noteq> []"
  {
    assume a: "net w [GetTools mcpUrl tenantId] = Resolved r \<and>
      (parsed r = None \<or> (\<forall>xs. oprop (parsed r) ''tools'' \<noteq> Some (JArr xs)))"
    let ?st = "\<lparr>messages = initial_messages system text,
                loopMessages = initial_messages system text,
                sent = [GetTools mcpUrl tenantId]\<rparr>"
    from a show l: "load_tools r = Inr []"
      by (intro load_tools_none) simp
    from c a l show e: "agent_chat w provider apiKey base enableTools mcpUrl tenantId system text =
        ending_answer (tool_loop w tenantId [] 6 ?st)"
      by (simp add: agent_chat_def Let_def)
    have six: "tool_loop w tenantId [] 6 ?st = tool_loop w tenantId [] (Suc 5) ?st"
      by simp
    from tool_loop_requests [of w tenantId "[]" 5 ?st] obtain more where
      "sent (ending_run (tool_loop w tenantId [] (Suc 5) ?st)) =
         sent ?st @ PostChat (messages ?st) [] # more"
      by blast
    then have "sent (ending_run (tool_loop w tenantId [] 6 ?st)) =
         GetTools mcpUrl tenantId # PostChat (initial_messages system text) [] # more"
      unfolding six by (simp del: tool_loop.simps)
    then show "\<exists>more. snd (agent_chat w provider apiKey base enableTools mcpUrl tenantId system text) =
        GetTools mcpUrl tenantId # PostChat (initial_messages system text) [] # more"
      unfolding e by (cases "tool_loop w tenantId [] 6 ?st") (simp_all add: ending_answer_def)
  }
  {
    assume "net w [GetTools mcpUrl tenantId] = Rejected e"
    with c show "agent_chat w provider apiKey base enableTools mcpUrl tenantId system text =
        (AgentFailed (FetchError e), [GetTools mcpUrl tenantId])"
      by (simp add: agent_chat_def Let_def)
  }
  {
    assume "net w [GetTools mcpUrl tenantId] = Resolved r \<and> load_tools r = Inl err"
    with c show "agent_chat w provider apiKey base enableTools mcpUrl tenantId system text =
        (AgentFailed err, [GetTools mcpUrl tenantId])"
      by (simp add: agent_chat_def Let_def)
  }
qed

theorem tool_list_fetch_witness:
  "load_tools bad_gateway_response = Inr [] \<and>
   agent_chat (world_of (Resolved bad_gateway_response) (\<lambda>h. Resolved final_response)
       (Resolved member_response))
     ''openai'' ''sk-1'' ''https://api.openai.com'' True ''http://mcp-server:8081'' ''default''
     ''You are a Maximo assistant.'' ''list the object structures'' =
     ending_answer
       (tool_loop (world_of (Resolved bad_gateway_response) (\<lambda>h. Resolved final_response)
            (Resolved member_response)) ''default'' [] 6 start) \<and>
   agent_chat (world_of (Rejected ''getaddrinfo ENOTFOUND mcp-server'') (\<lambda>h. Resolved final_response)
       (Resolved member_response))
     ''openai'' ''sk-1'' ''https://api.openai.com'' True ''http://mcp-server:8081'' ''default''
     ''You are a Maximo assistant.'' ''list the object structures'' =
     (AgentFailed (FetchError ''getaddrinfo ENOTFOUND mcp-server''),
      [GetTools ''http://mcp-server:8081'' ''default'']) \<and>
   agent_chat (world_of (Resolved unprintable_response) (\<lambda>h. Resolved final_response)
       (Resolved member_response))
     ''openai'' ''sk-1'' ''https://api.openai.com'' True ''http://mcp-server:8081'' ''default''
     ''You are a Maximo assistant.'' ''list the object structures'' =
     (AgentFailed TypeError, [GetTools ''http://mcp-server:8081'' ''default''])"
proof -
  let ?page = "world_of (Resolved bad_gateway_response) (\<lambda>h. Resolved final_response)
                 (Resolved member_response)"
  let ?down = "world_of (Rejected ''getaddrinfo ENOTFOUND mcp-server'')
                 (\<lambda>h. Resolved final_response) (Resolved member_response)"
  have c: "''sk-1'' \<noteq> [] \<and> ''https://api.openai.com'' \<noteq> [] \<and> True \<and> ''http://mcp-server:8081'' \<noteq> []"
    by simp
  have a: "net ?page [GetTools ''http://mcp-server:8081'' ''default''] = Resolved bad_gateway_response \<and>
      (parsed bad_gateway_response = None \<or>
       (\<forall>xs. oprop (parsed bad_gateway_response) ''tools'' \<noteq> Some (JArr xs)))"
    by (simp add: world_of_def bad_gateway_response_def text_response_def)
  have b: "net ?down [GetTools ''http://mcp-server:8081'' ''default''] =
      Rejected ''getaddrinfo ENOTFOUND mcp-server''"
    by (simp add: world_of_def)
  let ?odd = "world_of (Resolved unprintable_response) (\<lambda>h. Resolved final_response)
                (Resolved member_response)"
  have d: "net ?odd [GetTools ''http://mcp-server:8081'' ''default''] = Resolved unprintable_response \<and>
      load_tools unprintable_response = Inl TypeError"
    by (simp add: world_of_def unprintable_response_def json_response_def load_tools_def
        toOpenAITools_eq array_or_empty_def oprop_def throws_def openai_ready_def or_else_def)
  note t3 = tool_list_fetch [of "''sk-1''" "''https://api.openai.com''" True
      "''http://mcp-server:8081''" ?odd "''default''" unprintable_response "''openai''"
      "''You are a Maximo assistant.''" "''list the object structures''" _ TypeError]
  note t1 = tool_list_fetch [of "''sk-1''" "''https://api.openai.com''" True
      "''http://mcp-server:8081''" ?page "''default''" bad_gateway_response "''openai''"
      "''You are a Maximo assistant.''" "''list the object structures''"]
  note t2 = tool_list_fetch [of "''sk-1''" "''https://api.openai.com''" True
      "''http://mcp-server:8081''" ?down "''default''" _ "''openai''"
      "''You are a Maximo assistant.''" "''list the object structures''"
      "''getaddrinfo ENOTFOUND mcp-server''"]
  note k1 = t1 [THEN mp, OF c, THEN conjunct1, THEN mp, OF a]
  from k1 [THEN conjunct1] k1 [THEN conjunct2, THEN conjunct1]
  have r1: "load_tools bad_gateway_response = Inr [] \<and>
      agent_chat ?page ''openai'' ''sk-1'' ''https://api.openai.com'' True
        ''http://mcp-server:8081'' ''default'' ''You are a Maximo assistant.''
        ''list the object structures'' =
      ending_answer (tool_loop ?page ''default'' [] 6 start)"
    unfolding start_def by (rule conjI)
  from t2 [THEN mp, OF c, THEN conjunct2, THEN conjunct1, THEN mp, OF b] have r2: "agent_chat ?down ''openai'' ''sk-1'' ''https://api.openai.com'' True
        ''http://mcp-server:8081'' ''default'' ''You are a Maximo assistant.''
        ''list the object structures'' =
      (AgentFailed (FetchError ''getaddrinfo ENOTFOUND mcp-server''),
       [GetTools ''http://mcp-server:8081'' ''default''])" .
  from t3 [THEN mp, OF c, THEN conjunct2, THEN conjunct2, THEN mp, OF d]
  have r3: "agent_chat ?odd ''openai'' ''sk-1'' ''https://api.openai.com'' True
        ''http://mcp-server:8081'' ''default'' ''You are a Maximo assistant.''
        ''list the object structures'' =
      (AgentFailed TypeError, [GetTools ''http://mcp-server:8081'' ''default''])" .
  from r1 [THEN conjunct1] r1 [THEN conjunct2] r2 r3 show ?thesis
    by (intro conjI)
qed

text \<open>
  C2 as stated fails. The registry cannot be reached for the tool list: the route answers
  \<^verbatim>\<open>agent_failed\<close> and sends no completion request.
\<close>

theorem tool_list_fetch_counterexample:
  "agent_chat (world_of (Rejected ''connect ECONNREFUSED'') (\<lambda>h. Resolved final_response)
       (Resolved member_response))
     ''openai'' ''sk-1'' ''https://api.openai.com'' True ''http://mcp-server:8081'' ''default''
     ''You are a Maximo assistant.'' ''list the object structures'' =
     (AgentFailed (FetchError ''connect ECONNREFUSED''),
      [GetTools ''http://mcp-server:8081'' ''default''])"
  by (simp add: agent_chat_def world_of_def Let_def)

section \<open>Properties of the registry server\<close>

subsection \<open>Tool invocation\<close>


lemma call_tool_eq:
  "call_tool reqbody =
     (if truthy (oprop reqbody ''tool'') then oprop reqbody ''tool'' else oprop reqbody ''name'')"
proof (cases reqbody)
  case None
  then show ?thesis by (simp add: call_tool_def or_else_def or_val_def oprop_def)
next
  case (Some v)
  then show ?thesis
    by (cases v) (auto simp: call_tool_def or_else_def or_val_def oprop_def Let_def)
qed

lemma request_body_call_request:
  "request_body (call_request w tenantId tc) =
     Some (call_body (oprop (oprop (Some tc) ''function'') ''name'')
       (case js_String (Some (or_else (oprop (oprop (Some tc) ''function'') ''arguments'') (JStr ''{}''))) of
          Inl e \<Rightarrow> JObj [(''raw'', or_else (oprop (oprop (Some tc) ''function'') ''arguments'') (JStr ''{}''))]
        | Inr s \<Rightarrow>
            (case parse w s of
               Some v \<Rightarrow> v
             | None \<Rightarrow> JObj [(''raw'', or_else (oprop (oprop (Some tc) ''function'') ''arguments'') (JStr ''{}''))]))
       tenantId)"
  by (simp add: call_request_def Let_def)

lemma call_body_tool: "oprop (Some (call_body name args tenantId)) ''tool'' = None"
  by (cases name) (simp_all add: call_body_def oprop_def)

lemma call_body_name: "oprop (Some (call_body name args tenantId)) ''name'' = name"
  by (cases name) (simp_all add: call_body_def oprop_def)

text \<open>
  C9. The registry reads the tool from \<^verbatim>\<open>body.tool\<close> and, when that is absent or falsy,
  from \<^verbatim>\<open>body.name\<close>. The body the loop posts has no \<^verbatim>\<open>tool\<close>; the tool the registry
  reads from it is the name of the tool call, through \<^verbatim>\<open>name\<close>, and, the tenant
  resolved, the branch the route takes is chosen by that name.
\<close>

theorem tool_identifier:
  "(truthy (oprop reqbody ''tool'') \<longrightarrow> call_tool reqbody = oprop reqbody ''tool'') \<and>
   (\<not> truthy (oprop reqbody ''tool'') \<longrightarrow> call_tool reqbody = oprop reqbody ''name'') \<and>
   oprop (request_body (call_request w tenantId tc)) ''tool'' = None \<and>
   call_tool (request_body (call_request w tenantId tc)) = oprop (oprop (Some tc) ''function'') ''name'' \<and>
   mcp_call tenants (request_body (call_request w tenantId tc)) =
     (case call_tenant (request_body (call_request w tenantId tc)) of
        Inl e \<Rightarrow> Unhandled e
      | Inr tenant_id \<Rightarrow>
          (case tenantOrThrow tenants tenant_id of
             Inl e \<Rightarrow> Refused e
           | Inr t \<Rightarrow>
               if oprop (oprop (Some tc) ''function'') ''name'' = Some (JStr ''maximo.listOS'') then ListOS t
               else if oprop (oprop (Some tc) ''function'') ''name'' = Some (JStr ''maximo.queryOS'')
                 then QueryOS t (call_args (request_body (call_request w tenantId tc)))
               else if oprop (oprop (Some tc) ''function'') ''name'' = Some (JStr ''maximo.create'')
                 then Create t (call_args (request_body (call_request w tenantId tc)))
               else UnknownTool (oprop (oprop (Some tc) ''function'') ''name'')))"
proof -
  have t: "call_tool (request_body (call_request w tenantId tc)) =
      oprop (oprop (Some tc) ''function'') ''name''"
    by (simp add: request_body_call_request call_tool_eq call_body_tool call_body_name)
  show ?thesis
    by (simp add: t mcp_call_def Let_def)
       (simp add: call_tool_eq request_body_call_request call_body_tool)
qed

theorem tool_identifier_witness:
  "truthy (oprop (Some (JObj [(''tool'', JStr ''maximo.create''), (''name'', JStr ''maximo.listOS'')])) ''tool'') \<and>
   call_tool (Some (JObj [(''tool'', JStr ''maximo.create''), (''name'', JStr ''maximo.listOS'')])) =
     Some (JStr ''maximo.create'') \<and>
   \<not> truthy (oprop (Some (JObj [(''name'', JStr ''maximo.listOS'')])) ''tool'') \<and>
   call_tool (Some (JObj [(''name'', JStr ''maximo.listOS'')])) = Some (JStr ''maximo.listOS'') \<and>
   call_tool (request_body (call_request \<lparr>net = (\<lambda>h. Resolved member_response), parse = parse_braces\<rparr>
      ''default'' listos_call)) = Some (JStr ''maximo.listOS'') \<and>
   mcp_call one_tenant
     (request_body (call_request \<lparr>net = (\<lambda>h. Resolved member_response), parse = parse_braces\<rparr>
        ''default'' listos_call)) =
     ListOS \<lparr>config = JObj [(''baseUrl'', JStr ''https://manage.example.com/maximo''),
                             (''apiKey'', JStr ''k'')],
             api = ''https://manage.example.com/maximo/api''\<rparr>"
proof -
  let ?w = "\<lparr>net = (\<lambda>h. Resolved member_response), parse = parse_braces\<rparr>"
  let ?both = "Some (JObj [(''tool'', JStr ''maximo.create''), (''name'', JStr ''maximo.listOS'')])"
  let ?name = "Some (JObj [(''name'', JStr ''maximo.listOS'')])"
  note t1 = tool_identifier [of ?both ?w "''default''" listos_call one_tenant]
  note t2 = tool_identifier [of ?name ?w "''default''" listos_call one_tenant]
  have a: "truthy (oprop ?both ''tool'')" and b: "\<not> truthy (oprop ?name ''tool'')"
    by (simp_all add: oprop_def)
  from t1 [THEN conjunct1, THEN mp, OF a]
  have c1: "call_tool ?both = Some (JStr ''maximo.create'')"
    by (simp add: oprop_def)
  from t2 [THEN conjunct2, THEN conjunct1, THEN mp, OF b]
  have c2: "call_tool ?name = Some (JStr ''maximo.listOS'')"
    by (simp add: oprop_def)
  have n: "oprop (oprop (Some listos_call) ''function'') ''name'' = Some (JStr ''maximo.listOS'')"
    by (simp add: listos_call_def oprop_def)
  from t1 [THEN conjunct2, THEN conjunct2, THEN conjunct2, THEN conjunct1]
  have c3: "call_tool (request_body (call_request ?w ''default'' listos_call)) =
      Some (JStr ''maximo.listOS'')"
    by (simp only: n)
  have ct: "call_tenant (request_body (call_request ?w ''default'' listos_call)) = Inr ''default''"
    by (simp add: request_body_call_request call_tenant_def call_args_def call_body_def Let_def
        or_else_def or_val_def and_val_def oprop_def js_String_def listos_call_def parse_braces_def)
  have tn: "tenantOrThrow one_tenant ''default'' =
      Inr \<lparr>config = JObj [(''baseUrl'', JStr ''https://manage.example.com/maximo''),
                            (''apiKey'', JStr ''k'')],
            api = ''https://manage.example.com/maximo/api''\<rparr>"
    by (simp add: Let_def or_else_def oprop_def tenantOrThrow_def resolve_def lookup_def
        one_tenant_def mkBaseApi_def js_String_def strip_slash_def ends_with_def)
  from t1 [THEN conjunct2, THEN conjunct2, THEN conjunct2, THEN conjunct2]
  have c4: "mcp_call one_tenant (request_body (call_request ?w ''default'' listos_call)) =
      ListOS \<lparr>config = JObj [(''baseUrl'', JStr ''https://manage.example.com/maximo''),
                              (''apiKey'', JStr ''k'')],
              api = ''https://manage.example.com/maximo/api''\<rparr>"
    by (simp only: ct n) (simp add: tn)
  from a c1 b c2 c3 c4 show ?thesis
    by (intro conjI)
qed

subsection \<open>Trace buffer\<close>


lemma evict_Nil: "evict LOG_MAX [] = []"
  by (simp add: evict.simps)

lemma evict_Cons:
  "evict LOG_MAX (x # xs) = (if LOG_MAX \<le> length xs then evict LOG_MAX xs else x # xs)"
  by (simp add: evict.simps [of LOG_MAX "x # xs"] less_Suc_eq_le)

lemma evict_drop: "evict LOG_MAX buf = drop (length buf - LOG_MAX) buf"
  by (induction buf) (simp_all add: evict_Nil evict_Cons Suc_diff_le)

lemma pushLog_event:
  "pushLog LOG_MAX (ts e) (kind e) (payload e) (Some (meta e)) (Some (tenant e)) buf =
     evict LOG_MAX (buf @ [e])"
  by (cases e) (simp add: pushLog_def)

lemma drop_drop_append:
  "k \<le> length xs \<Longrightarrow> drop n (drop k xs @ ys) = drop (k + n) (xs @ ys)"
  by (simp add: add.commute)

lemma pushed_drop:
  "length buf \<le> LOG_MAX \<Longrightarrow>
   pushed LOG_MAX buf es = drop (length buf + length es - LOG_MAX) (buf @ es)"
proof (induction es arbitrary: buf)
  case Nil
  then show ?case by simp
next
  case (Cons e es)
  let ?k = "Suc (length buf) - LOG_MAX"
  have k: "?k \<le> length (buf @ [e])" by simp
  have n: "?k + (length (drop ?k (buf @ [e])) + length es - LOG_MAX) =
           length buf + length (e # es) - LOG_MAX"
    by (simp del: drop_append)
  have "pushed LOG_MAX buf (e # es) = pushed LOG_MAX (drop ?k (buf @ [e])) es"
    by (simp add: pushLog_event evict_drop del: drop_append)
  also have "\<dots> = drop (length (drop ?k (buf @ [e])) + length es - LOG_MAX) (drop ?k (buf @ [e]) @ es)"
    by (rule Cons.IH) simp
  also have "\<dots> = drop (?k + (length (drop ?k (buf @ [e])) + length es - LOG_MAX)) ((buf @ [e]) @ es)"
    by (rule drop_drop_append [OF k])
  also have "\<dots> = drop (length buf + length (e # es) - LOG_MAX) (buf @ e # es)"
    by (simp only: n) simp
  finally show ?case .
qed

lemma pushed_empty: "pushed LOG_MAX [] es = drop (length es - LOG_MAX) es"
  by (simp add: pushed_drop)




lemma api_logs_zero: "api_logs LOG_MAX (Some (Fin 0)) buf = buf"
  by (simp add: api_logs_def toInteger_def)

text \<open>
  A read of the limit 0 gives a buffer that holds events back whole, \<^verbatim>\<open>slice(-0)\<close>
  being \<^verbatim>\<open>slice(0)\<close>; no request brings the module to such a buffer.
\<close>

lemma api_logs_zero_filled:
  "api_logs 500 (Some (Fin 0)) (pushed 500 [] [sample_event 7, sample_event 8, sample_event 9]) =
     [sample_event 7, sample_event 8, sample_event 9]"
proof -
  have "pushed 500 [] [sample_event 7, sample_event 8, sample_event 9] =
      [sample_event 7, sample_event 8, sample_event 9]"
    by (simp add: pushed_empty del: pushed.simps)
  then show ?thesis
    by (simp add: api_logs_zero del: pushed.simps)
qed







subsection \<open>Tenants\<close>

lemma mkBaseApi_truthy: "truthy base \<Longrightarrow> mkBaseApi base \<noteq> Inr None"
  by (simp add: mkBaseApi_def Let_def split: sum.splits)

lemma mkBaseApi_None: "mkBaseApi base = Inr None \<Longrightarrow> \<not> truthy base"
  using mkBaseApi_truthy by blast

lemma mkBaseApi_throws: "(\<exists>e. mkBaseApi (Some b) = Inl e) = (truthy (Some b) \<and> \<not> printable b)"
  by (simp add: mkBaseApi_def Let_def js_String_def)

text \<open>The second \<^verbatim>\<open>throw\<close> of \<^verbatim>\<open>tenantOrThrow\<close> is never reached.\<close>

lemma tenantOrThrow_not_BadUrl: "tenantOrThrow tenants tenantId \<noteq> Inl (BadUrl x)"
  by (auto simp: tenantOrThrow_def split: property.splits option.splits sum.splits
      dest: mkBaseApi_None)

text \<open>
  A request fails exactly when the registry is null, no tenant is resolved, an
  inherited property is, or the tenant resolved has no \<^verbatim>\<open>baseUrl\<close> or one that
  \<^verbatim>\<open>String\<close> cannot convert.
\<close>

lemma tenantOrThrow_fails:
  "(\<exists>e. tenantOrThrow tenants tenantId = Inl e) =
     (tenants = JNull \<or>
      (case resolve tenants tenantId of
         Own t \<Rightarrow> \<not> truthy (Some t) \<or> \<not> truthy (oprop (Some t) ''baseUrl'') \<or>
                  (\<exists>e. mkBaseApi (oprop (Some t) ''baseUrl'') = Inl e)
       | Inherited \<Rightarrow> True
       | Missing \<Rightarrow> True))"
  by (auto simp: tenantOrThrow_def split: property.splits option.splits sum.splits
      dest: mkBaseApi_None)

text \<open>
  A tenant id that the registry does not hold, and that is no name of
  \<^verbatim>\<open>Object.prototype\<close>, resolves to the tenant \<^verbatim>\<open>default\<close>.
\<close>

lemma resolve_unknown:
  "own tenants tenantId = None \<Longrightarrow> tenantId \<notin> set object_prototype_names \<Longrightarrow>
   resolve tenants tenantId = resolve tenants ''default''"
  by (simp add: resolve_def lookup_def object_prototype_names_def split: option.splits)

lemma tenantOrThrow_unknown:
  assumes "own tenants tenantId = None" and "tenantId \<notin> set object_prototype_names"
      and "own tenants ''default'' = Some d" and "truthy (Some d)"
      and "oprop (Some d) ''baseUrl'' = Some b" and "truthy (Some b)" and "printable b"
  shows "\<exists>a. mkBaseApi (Some b) = Inr (Some a) \<and>
              tenantOrThrow tenants tenantId = Inr \<lparr>config = d, api = a\<rparr>"
proof -
  from assms(6,7) have "\<exists>a. mkBaseApi (Some b) = Inr (Some a)"
    by (simp add: mkBaseApi_def Let_def js_String_def)
  then obtain a where a: "mkBaseApi (Some b) = Inr (Some a)" ..
  from assms(3) have "tenants \<noteq> JNull"
    by auto
  with assms a show ?thesis
    by (simp add: tenantOrThrow_def resolve_unknown resolve_def lookup_def)
qed

text \<open>
  A registry that is no object: null makes every request fail on the read of the
  property, a number is refused for every tenant id, and an array gives its elements
  under their indices.
\<close>

lemma tenantOrThrow_null: "tenantOrThrow JNull tenantId = Inl (Thrown TypeError)"
  by (simp add: tenantOrThrow_def)

lemma tenantOrThrow_number: "tenantOrThrow (JNum n) tenantId = Inl (NotConfigured tenantId)"
  by (simp add: tenantOrThrow_def resolve_def lookup_def)

lemma tenantOrThrow_array:
  "tenantOrThrow (JArr [JObj [(''baseUrl'', JStr ''https://manage.example.com/maximo'')]]) ''0'' =
     Inr \<lparr>config = JObj [(''baseUrl'', JStr ''https://manage.example.com/maximo'')],
          api = ''https://manage.example.com/maximo/api''\<rparr> \<and>
   tenantOrThrow (JArr [JObj [(''baseUrl'', JStr ''https://manage.example.com/maximo'')]]) ''acme'' =
     Inl (NotConfigured ''acme'')"
  by (simp add: tenantOrThrow_def resolve_def lookup_def oprop_def mkBaseApi_def js_String_def
      strip_slash_def ends_with_def Let_def digits.simps [of 0] digit_char_def)

text \<open>
  C10. A request that names the tenant \<^verbatim>\<open>constructor\<close>, which the registry does not
  hold, is refused with status 400, while one that names the unknown tenant \<^verbatim>\<open>acme\<close>
  goes on with the configuration of \<^verbatim>\<open>default\<close>.
\<close>

theorem inherited_tenant_refused:
  "loadTenants (\<lambda>s. None) None (Some ''https://manage.example.com/maximo'') (Some ''k'') None None =
     one_tenant \<and>
   mcp_call one_tenant (Some (call_body (Some (JStr ''maximo.listOS'')) (JObj []) ''constructor'')) =
     Refused (NotConfigured ''constructor'') \<and>
   mcp_call one_tenant (Some (call_body (Some (JStr ''maximo.listOS'')) (JObj []) ''acme'')) =
     ListOS \<lparr>config = JObj [(''baseUrl'', JStr ''https://manage.example.com/maximo''),
                             (''apiKey'', JStr ''k'')],
             api = ''https://manage.example.com/maximo/api''\<rparr>"
  by (simp add: loadTenants_def env_field_def one_tenant_def mcp_call_def call_tool_def
      call_args_def call_tenant_def call_body_def Let_def or_else_def or_val_def and_val_def
      oprop_def tenantOrThrow_def resolve_def lookup_def object_prototype_names_def
      mkBaseApi_def js_String_def strip_slash_def ends_with_def)

end
